theory Spec2Isabelle
  imports Complex_Main "HOL-Library.AList"
begin

section \<open>Lenia: the simulation engines, the mutation model and the preset store\<close>

text \<open>
  The embedding follows the JavaScript classes \<^verbatim>\<open>Lenia\<close>, \<^verbatim>\<open>LeniaEcosystem\<close> and
  \<^verbatim>\<open>PresetGallery\<close> and the two GLSL fragment shaders \<^verbatim>\<open>SIMULATION_SHADER\<close> and
  \<^verbatim>\<open>ECOSYSTEM_SIMULATION_SHADER\<close>. Numbers (JavaScript doubles, GLSL floats and the
  normalised texel values) are modelled as exact reals: rounding, the 8-bit storage of
  the textures and NaN are outside the model.
\<close>

subsection \<open>GLSL built-ins and vectors\<close>

datatype vec3 = vec3 (vx: real) (vy: real) (vz: real)

datatype vec4 = vec4 (cr: real) (cg: real) (cb: real) (ca: real)

definition clamp :: "real \<Rightarrow> real \<Rightarrow> real \<Rightarrow> real" where
  "clamp x minVal maxVal = min (max x minVal) maxVal"

definition smoothstep :: "real \<Rightarrow> real \<Rightarrow> real \<Rightarrow> real" where
  "smoothstep edge0 edge1 x =
     (let t = clamp ((x - edge0) / (edge1 - edge0)) 0 1 in t * t * (3 - 2 * t))"

definition vec4_scale :: "real \<Rightarrow> vec4 \<Rightarrow> vec4" where
  "vec4_scale w p = vec4 (w * cr p) (w * cg p) (w * cb p) (w * ca p)"

definition vec4_add :: "vec4 \<Rightarrow> vec4 \<Rightarrow> vec4" where
  "vec4_add p q = vec4 (cr p + cr q) (cg p + cg q) (cb p + cb q) (ca p + ca q)"

subsection \<open>Textures and sampling\<close>

datatype wrap = REPEAT | CLAMP_TO_EDGE

text \<open>A texture: its size, its two wrap parameters and its texels, row-major.\<close>

record texture =
  tex_width :: nat
  tex_height :: nat
  TEXTURE_WRAP_S :: wrap
  TEXTURE_WRAP_T :: wrap
  pixels :: "vec4 list"

definition wrap_index :: "wrap \<Rightarrow> nat \<Rightarrow> int \<Rightarrow> nat" where
  "wrap_index w n i =
     (case w of
        REPEAT \<Rightarrow> nat (i mod int n)
      | CLAMP_TO_EDGE \<Rightarrow> nat (max 0 (min (int n - 1) i)))"

definition texel :: "texture \<Rightarrow> int \<Rightarrow> int \<Rightarrow> vec4" where
  "texel t i j =
     pixels t ! (wrap_index (TEXTURE_WRAP_T t) (tex_height t) j * tex_width t
                 + wrap_index (TEXTURE_WRAP_S t) (tex_width t) i)"

text \<open>
  Both engines ask for a WebGL 1 context. There a texture whose width or height is not a
  power of two is complete only when both wrap parameters are CLAMP_TO_EDGE (the filters
  are LINEAR, which needs no mipmap); sampling an incomplete texture yields
  \<open>(0, 0, 0, 1)\<close>. The test for a power of two is the usual \<^verbatim>\<open>n != 0 && (n & (n - 1)) == 0\<close>.
\<close>

definition is_power_of_two :: "nat \<Rightarrow> bool" where
  "is_power_of_two n \<longleftrightarrow> n \<noteq> 0 \<and> and n (n - 1) = 0"

definition texture_complete :: "texture \<Rightarrow> bool" where
  "texture_complete t \<longleftrightarrow>
     (is_power_of_two (tex_width t) \<and> is_power_of_two (tex_height t))
     \<or> (TEXTURE_WRAP_S t = CLAMP_TO_EDGE \<and> TEXTURE_WRAP_T t = CLAMP_TO_EDGE)"

text \<open>
  \<^verbatim>\<open>texture2D\<close> with the LINEAR filter both engines set: on a complete texture, the four
  texels around the sample position, weighted bilinearly, each texel index going through
  the wrap mode; on an incomplete texture, opaque black.
\<close>

definition texture2D :: "texture \<Rightarrow> real \<times> real \<Rightarrow> vec4" where
  "texture2D t st =
     (if texture_complete t
      then
        let u = fst st * real (tex_width t) - 1 / 2;
            v = snd st * real (tex_height t) - 1 / 2;
            i0 = \<lfloor>u\<rfloor>; j0 = \<lfloor>v\<rfloor>;
            a = u - of_int i0; b = v - of_int j0
        in vec4_add
             (vec4_add (vec4_scale ((1 - a) * (1 - b)) (texel t i0 j0))
                       (vec4_scale (a * (1 - b)) (texel t (i0 + 1) j0)))
             (vec4_add (vec4_scale ((1 - a) * b) (texel t i0 (j0 + 1)))
                       (vec4_scale (a * b) (texel t (i0 + 1) (j0 + 1))))
      else vec4 0 0 0 1)"

text \<open>
  \<^verbatim>\<open>VERTEX_SHADER\<close> and rasterisation: the fragment of pixel \<open>(x, y)\<close> in a viewport of
  \<open>W \<times> H\<close> pixels has its centre at normalised device coordinate
  \<open>2 (x + 1/2) / W - 1\<close>, and \<^verbatim>\<open>v_texCoord = a_position * 0.5 + 0.5\<close>.
\<close>

definition VERTEX_SHADER :: "real \<times> real \<Rightarrow> real \<times> real" where
  "VERTEX_SHADER a_position = (fst a_position * 0.5 + 0.5, snd a_position * 0.5 + 0.5)"

definition fragment_position :: "nat \<Rightarrow> nat \<Rightarrow> nat \<Rightarrow> nat \<Rightarrow> real \<times> real" where
  "fragment_position W H x y =
     (2 * (real x + 1 / 2) / real W - 1, 2 * (real y + 1 / 2) / real H - 1)"

text \<open>
  \<^verbatim>\<open>gl.drawArrays\<close> of the full-screen quad into the framebuffer of \<open>target\<close> with
  viewport \<open>(0, 0, W, H)\<close>: every pixel inside the viewport receives the fragment
  shader's colour, the others keep theirs. Pixel \<open>k\<close> of the row-major texel list is
  column \<open>k mod width\<close> of row \<open>k div width\<close>.
\<close>

definition drawArrays :: "texture \<Rightarrow> nat \<Rightarrow> nat \<Rightarrow> (real \<times> real \<Rightarrow> vec4) \<Rightarrow> texture" where
  "drawArrays target W H shader =
     target\<lparr>pixels :=
       map (\<lambda>k. let x = k mod tex_width target; y = k div tex_width target
                in if x < W \<and> y < H then shader (VERTEX_SHADER (fragment_position W H x y))
                   else pixels target ! k)
           [0..<tex_width target * tex_height target]\<rparr>"

text \<open>
  The nested \<^verbatim>\<open>for dy / for dx\<close> loops from \<open>-n\<close> to \<open>n\<close>: the pairs \<open>(dy, dx)\<close> in
  iteration order, \<open>dy\<close> outermost.
\<close>

definition offsets :: "int \<Rightarrow> (int \<times> int) list" where
  "offsets n = List.product [-n..n] [-n..n]"

subsection \<open>Kernel and growth function\<close>

definition kernel_w :: "real \<Rightarrow> real" where
  "kernel_w r = (let kr = 4 * r * (1 - r) in kr * kr)"

definition growth :: "real \<Rightarrow> real \<Rightarrow> real \<Rightarrow> real" where
  "growth u mu sigma = (let diff = (u - mu) / sigma in 2 * exp (- diff * diff / 2) - 1)"

subsection \<open>Single-species simulation shader\<close>

record sim_uniforms =
  u_state :: texture
  u_resolution :: "real \<times> real"
  u_R :: real
  u_T :: real
  u_mu :: real
  u_sigma :: real
  u_dt :: real
  u_trail :: real

text \<open>One iteration of the convolution loop on the accumulators \<open>(total, kernelSum)\<close>.\<close>

definition sim_loop_body ::
  "sim_uniforms \<Rightarrow> real \<times> real \<Rightarrow> int \<times> int \<Rightarrow> real \<times> real \<Rightarrow> real \<times> real" where
  "sim_loop_body u v_texCoord off acc =
     (let texelSize = (1 / fst (u_resolution u), 1 / snd (u_resolution u));
          fdx = real_of_int (snd off); fdy = real_of_int (fst off);
          dist = sqrt (fdx * fdx + fdy * fdy)
      in if dist > u_R u then acc
         else
           let r = dist / u_R u;
               k = kernel_w r;
               samplePos = (fst v_texCoord + fdx * fst texelSize,
                            snd v_texCoord + fdy * snd texelSize);
               state = cr (texture2D (u_state u) samplePos)
           in (fst acc + state * k, snd acc + k))"

definition sim_potential :: "sim_uniforms \<Rightarrow> real \<times> real \<Rightarrow> real" where
  "sim_potential u v_texCoord =
     (let acc = fold (sim_loop_body u v_texCoord) (offsets 12) (0, 0)
      in fst acc / max (snd acc) 0.001)"

definition SIMULATION_SHADER :: "sim_uniforms \<Rightarrow> real \<times> real \<Rightarrow> vec4" where
  "SIMULATION_SHADER u v_texCoord =
     (let U = sim_potential u v_texCoord;
          G = growth U (u_mu u) (u_sigma u);
          currentState = cr (texture2D (u_state u) v_texCoord);
          newState = clamp (currentState + G * u_dt u / u_T u) 0 1;
          newState = newState * u_trail u
      in vec4 newState newState newState 1)"

subsection \<open>Ecosystem simulation shader\<close>

record eco_uniforms =
  eco_u_state :: texture
  eco_u_resolution :: "real \<times> real"
  eco_u_dt :: real
  eco_u_time :: real
  eco_u_R :: vec3
  eco_u_T :: vec3
  eco_u_mu :: vec3
  eco_u_sigma :: vec3
  u_predation :: real
  u_benefit :: real

text \<open>
  One iteration of the neighbourhood loop on the accumulators \<open>(totals, kernelSums)\<close>;
  the three \<^verbatim>\<open>if (dist <= u_R.?)\<close> blocks run in the source's order.
\<close>

definition eco_loop_body ::
  "eco_uniforms \<Rightarrow> real \<times> real \<Rightarrow> int \<times> int \<Rightarrow> vec3 \<times> vec3 \<Rightarrow> vec3 \<times> vec3" where
  "eco_loop_body u v_texCoord off acc =
     (let texelSize = (1 / fst (eco_u_resolution u), 1 / snd (eco_u_resolution u));
          fdx = real_of_int (snd off); fdy = real_of_int (fst off);
          dist = sqrt (fdx * fdx + fdy * fdy)
      in if dist < 0.5 then acc
         else
           let samplePos = (fst v_texCoord + fdx * fst texelSize,
                            snd v_texCoord + fdy * snd texelSize);
               neighbor = texture2D (eco_u_state u) samplePos;
               acc = (if dist \<le> vx (eco_u_R u)
                      then let r = dist / vx (eco_u_R u); k = kernel_w r
                           in (vec3 (vx (fst acc) + cr neighbor * k) (vy (fst acc)) (vz (fst acc)),
                               vec3 (vx (snd acc) + k) (vy (snd acc)) (vz (snd acc)))
                      else acc);
               acc = (if dist \<le> vy (eco_u_R u)
                      then let r = dist / vy (eco_u_R u); k = kernel_w r
                           in (vec3 (vx (fst acc)) (vy (fst acc) + cg neighbor * k) (vz (fst acc)),
                               vec3 (vx (snd acc)) (vy (snd acc) + k) (vz (snd acc)))
                      else acc);
               acc = (if dist \<le> vz (eco_u_R u)
                      then let r = dist / vz (eco_u_R u); k = kernel_w r
                           in (vec3 (vx (fst acc)) (vy (fst acc)) (vz (fst acc) + cb neighbor * k),
                               vec3 (vx (snd acc)) (vy (snd acc)) (vz (snd acc) + k))
                      else acc)
           in acc)"

definition eco_potentials :: "eco_uniforms \<Rightarrow> real \<times> real \<Rightarrow> vec3" where
  "eco_potentials u v_texCoord =
     (let acc = fold (eco_loop_body u v_texCoord) (offsets 15) (vec3 0 0 0, vec3 0 0 0);
          totals = fst acc; kernelSums = snd acc
      in vec3 (vx totals / max (vx kernelSums) 0.001)
              (vy totals / max (vy kernelSums) 0.001)
              (vz totals / max (vz kernelSums) 0.001))"

definition ECOSYSTEM_SIMULATION_SHADER :: "eco_uniforms \<Rightarrow> real \<times> real \<Rightarrow> vec4" where
  "ECOSYSTEM_SIMULATION_SHADER u v_texCoord =
     (let current = texture2D (eco_u_state u) v_texCoord;
          preyDensity = cr current;
          predDensity = cg current;
          apexDensity = cb current;
          U = eco_potentials u v_texCoord;
          preyGrowth = growth (vx U) (vx (eco_u_mu u)) (vx (eco_u_sigma u));
          predGrowth = growth (vy U) (vy (eco_u_mu u)) (vy (eco_u_sigma u));
          apexGrowth = growth (vz U) (vz (eco_u_mu u)) (vz (eco_u_sigma u));
          localPrey = preyDensity;
          localPred = predDensity;
          localApex = apexDensity;
          preyLoss = localPred * u_predation u * localPrey;
          predGain = localPrey * u_benefit u * localPred * 0.5;
          predLoss = localApex * u_predation u * localPred;
          apexGain = localPred * u_benefit u * localApex * 0.3;
          totalDensity = preyDensity + predDensity + apexDensity;
          crowding = smoothstep 0.5 1.5 totalDensity * 0.1;
          newPrey = preyDensity + (preyGrowth * eco_u_dt u / vx (eco_u_T u))
                      - preyLoss - crowding * preyDensity;
          newPred = predDensity + (predGrowth * eco_u_dt u / vy (eco_u_T u))
                      + predGain - predLoss - crowding * predDensity;
          newApex = apexDensity + (apexGrowth * eco_u_dt u / vz (eco_u_T u))
                      + apexGain - crowding * apexDensity;
          newPrey = clamp newPrey 0 1;
          newPred = clamp newPred 0 1;
          newApex = clamp newApex 0 1;
          newPrey = newPrey * 0.9995;
          newPred = newPred * 0.9993;
          newApex = newApex * 0.9990
      in vec4 newPrey newPred newApex 1)"

subsection \<open>Species tables\<close>

text \<open>The two exceptions the modelled methods can raise.\<close>

datatype js_error = Error_Maximum_presets_reached nat | TypeError

record growth_params =
  mu :: real
  sigma :: real

record species_core =
  name :: string
  color :: "real list"
  R :: real
  T :: real
  growthParams :: growth_params

record species = species_core +
  kernelParams :: "real list"

record eco_species = species_core +
  channel :: nat
  eatenBy :: "string list"
  eats :: "string list"

definition SPECIES_table :: "string \<rightharpoonup> species" where
  "SPECIES_table =
     [''orbium'' \<mapsto> \<lparr>name = ''Orbium'', color = [0.2, 0.6, 1.0], R = 10, T = 10,
          growthParams = \<lparr>mu = 0.15, sigma = 0.017\<rparr>, kernelParams = [1, 1, 1]\<rparr>,
      ''geminium'' \<mapsto> \<lparr>name = ''Geminium'', color = [1.0, 0.4, 0.6], R = 8, T = 10,
          growthParams = \<lparr>mu = 0.14, sigma = 0.016\<rparr>, kernelParams = [1, 0.5, 0.5]\<rparr>,
      ''hydrogeminium'' \<mapsto> \<lparr>name = ''Hydrogeminium'', color = [0.4, 1.0, 0.6], R = 12, T = 10,
          growthParams = \<lparr>mu = 0.12, sigma = 0.015\<rparr>, kernelParams = [1, 1 / 3, 1]\<rparr>,
      ''scutium'' \<mapsto> \<lparr>name = ''Scutium'', color = [1.0, 0.8, 0.2], R = 10, T = 8,
          growthParams = \<lparr>mu = 0.16, sigma = 0.018\<rparr>, kernelParams = [0.5, 1, 1]\<rparr>,
      ''gliderium'' \<mapsto> \<lparr>name = ''Gliderium'', color = [0.8, 0.4, 1.0], R = 11, T = 12,
          growthParams = \<lparr>mu = 0.135, sigma = 0.015\<rparr>, kernelParams = [1, 0.8, 0.5]\<rparr>]"

definition ECOSYSTEM_SPECIES_prey :: eco_species where
  "ECOSYSTEM_SPECIES_prey =
     \<lparr>name = ''Prey'', color = [1.0, 0.3, 0.2], R = 10, T = 15,
      growthParams = \<lparr>mu = 0.14, sigma = 0.015\<rparr>,
      channel = 0, eatenBy = [''predator''], eats = []\<rparr>"

definition ECOSYSTEM_SPECIES_predator :: eco_species where
  "ECOSYSTEM_SPECIES_predator =
     \<lparr>name = ''Predator'', color = [0.2, 1.0, 0.4], R = 12, T = 20,
      growthParams = \<lparr>mu = 0.13, sigma = 0.012\<rparr>,
      channel = 1, eatenBy = [''apex''], eats = [''prey'']\<rparr>"

definition ECOSYSTEM_SPECIES_apex :: eco_species where
  "ECOSYSTEM_SPECIES_apex =
     \<lparr>name = ''Apex'', color = [0.3, 0.4, 1.0], R = 14, T = 25,
      growthParams = \<lparr>mu = 0.12, sigma = 0.010\<rparr>,
      channel = 2, eatenBy = [], eats = [''predator'']\<rparr>"

subsection \<open>The single-species engine: class Lenia\<close>

text \<open>
  The fields of the engine the update rule reads or writes; \<open>SPECIES\<close> is the global
  table, which \<^verbatim>\<open>setParameters\<close> edits in place. The table is a map from the species
  names: a \<open>currentSpecies\<close> that names a property inherited from \<^verbatim>\<open>Object.prototype\<close>
  is outside the model. The two ping-pong textures are a pair
  indexed by \<open>currentBuffer\<close> (0 or 1).
\<close>

record engine =
  width :: nat
  height :: nat
  textures :: "texture \<times> texture"
  currentBuffer :: nat
  timeScale :: real

record lenia = engine +
  currentSpecies :: string
  SPECIES :: "string \<rightharpoonup> species"
  mutationMode :: bool
  mutatedParams :: "species option"
  mutationSpeed :: real
  trailEnabled :: bool
  trailAmount :: real

definition buffer :: "texture \<times> texture \<Rightarrow> nat \<Rightarrow> texture" where
  "buffer ts i = (if i = 0 then fst ts else snd ts)"

definition set_buffer :: "texture \<times> texture \<Rightarrow> nat \<Rightarrow> texture \<Rightarrow> texture \<times> texture" where
  "set_buffer ts i t = (if i = 0 then (t, snd ts) else (fst ts, t))"

definition Lenia_createTexture :: "nat \<Rightarrow> nat \<Rightarrow> texture" where
  "Lenia_createTexture w h =
     \<lparr>tex_width = w, tex_height = h, TEXTURE_WRAP_S = REPEAT, TEXTURE_WRAP_T = REPEAT,
      pixels = replicate (w * h) (vec4 0 0 0 0)\<rparr>"

text \<open>
  The constructor followed by \<^verbatim>\<open>init\<close>; \<open>w\<close> and \<open>h\<close> are what \<^verbatim>\<open>resize\<close> computes from
  the canvas and \<open>data\<close> is the field \<^verbatim>\<open>randomize\<close> uploads into the current texture.
\<close>

definition Lenia_constructor :: "nat \<Rightarrow> nat \<Rightarrow> vec4 list \<Rightarrow> lenia" where
  "Lenia_constructor w h data =
     \<lparr>width = w, height = h,
      textures = ((Lenia_createTexture w h)\<lparr>pixels := data\<rparr>, Lenia_createTexture w h),
      currentBuffer = 0, timeScale = 1.0,
      currentSpecies = ''orbium'', SPECIES = SPECIES_table,
      mutationMode = False, mutatedParams = None, mutationSpeed = 0.0005,
      trailEnabled = False, trailAmount = 0.95\<rparr>"

text \<open>The five \<^verbatim>\<open>Math.random()\<close> results one call of \<^verbatim>\<open>mutate\<close> consumes, in order.\<close>

record draws =
  rand_R :: real
  rand_T :: real
  rand_mu :: real
  rand_sigma :: real
  rand_log :: real

definition mutate :: "lenia \<Rightarrow> draws \<Rightarrow> lenia" where
  "mutate s d =
     (case mutatedParams s of
        None \<Rightarrow> s
      | Some p \<Rightarrow>
          let speed = mutationSpeed s;
              p = p\<lparr>R := R p + (rand_R d - 0.5) * speed * 100\<rparr>;
              p = p\<lparr>R := max 5 (min 20 (R p))\<rparr>;
              p = p\<lparr>T := T p + (rand_T d - 0.5) * speed * 100\<rparr>;
              p = p\<lparr>T := max 5 (min 20 (T p))\<rparr>;
              p = p\<lparr>growthParams := (growthParams p)
                     \<lparr>mu := mu (growthParams p) + (rand_mu d - 0.5) * speed\<rparr>\<rparr>;
              p = p\<lparr>growthParams := (growthParams p)
                     \<lparr>mu := max 0.05 (min 0.3 (mu (growthParams p)))\<rparr>\<rparr>;
              p = p\<lparr>growthParams := (growthParams p)
                     \<lparr>sigma := sigma (growthParams p) + (rand_sigma d - 0.5) * speed * 0.1\<rparr>\<rparr>;
              p = p\<lparr>growthParams := (growthParams p)
                     \<lparr>sigma := max 0.005 (min 0.05 (sigma (growthParams p)))\<rparr>\<rparr>
          in s\<lparr>mutatedParams := Some p\<rparr>)"

definition setSpeed :: "lenia \<Rightarrow> real \<Rightarrow> lenia" where
  "setSpeed s scale = s\<lparr>timeScale := max 0.1 (min 5.0 scale)\<rparr>"

text \<open>
  The record \<^verbatim>\<open>setParameters\<close> receives: each field is a number, or \<open>None\<close> when it is
  missing (\<^verbatim>\<open>undefined\<close>). \<open>js_or v d\<close> is \<^verbatim>\<open>v || d\<close>: the left operand unless it is
  falsy (missing or zero).
\<close>

record lab_params =
  param_R :: "real option"
  param_T :: "real option"
  param_mu :: "real option"
  param_sigma :: "real option"

definition js_or :: "real option \<Rightarrow> real \<Rightarrow> real" where
  "js_or v d = (case v of None \<Rightarrow> d | Some x \<Rightarrow> if x = 0 then d else x)"

definition setParameters :: "lenia \<Rightarrow> lab_params \<Rightarrow> js_error + lenia" where
  "setParameters s params =
     (case SPECIES s (currentSpecies s) of
        None \<Rightarrow> Inl TypeError
      | Some baseSpecies \<Rightarrow>
          let customSpecies =
                \<lparr>name = ''Custom'', color = color baseSpecies,
                 R = js_or (param_R params) (R baseSpecies),
                 T = js_or (param_T params) (T baseSpecies),
                 growthParams =
                   \<lparr>mu = js_or (param_mu params) (mu (growthParams baseSpecies)),
                    sigma = js_or (param_sigma params) (sigma (growthParams baseSpecies))\<rparr>,
                 kernelParams = kernelParams baseSpecies\<rparr>;
              s = s\<lparr>SPECIES := (SPECIES s)(''custom'' \<mapsto> customSpecies)\<rparr>;
              s = s\<lparr>currentSpecies := ''custom''\<rparr>;
              s = (case mutatedParams s of
                     Some m \<Rightarrow>
                       if mutationMode s
                       then s\<lparr>mutatedParams := Some (m
                              \<lparr>R := R customSpecies, T := T customSpecies,
                               growthParams := (growthParams m)
                                 \<lparr>mu := mu (growthParams customSpecies),
                                  sigma := sigma (growthParams customSpecies)\<rparr>\<rparr>)\<rparr>
                       else s
                   | None \<Rightarrow> s)
          in Inr s)"

text \<open>
  \<^verbatim>\<open>step\<close>: mutate when mutation mode is on, take \<^verbatim>\<open>this.mutatedParams || species\<close>,
  run the simulation shader from the current texture into the other one, swap
  (\<open>step_draw\<close>, the part of the method from \<^verbatim>\<open>nextBuffer\<close> on).
  Reading \<^verbatim>\<open>params.R\<close> of an undefined species is the TypeError branch.
\<close>

definition Lenia_uniforms :: "lenia \<Rightarrow> species \<Rightarrow> sim_uniforms" where
  "Lenia_uniforms s params =
     \<lparr>u_state = buffer (textures s) (currentBuffer s),
      u_resolution = (real (width s), real (height s)),
      u_R = R params, u_T = T params,
      u_mu = mu (growthParams params), u_sigma = sigma (growthParams params),
      u_dt = timeScale s,
      u_trail = (if trailEnabled s then trailAmount s else 1.0)\<rparr>"

definition step_draw :: "lenia \<Rightarrow> species \<Rightarrow> lenia" where
  "step_draw s params =
     (let nextBuffer = 1 - currentBuffer s;
          rendered = drawArrays (buffer (textures s) nextBuffer) (width s) (height s)
                       (SIMULATION_SHADER (Lenia_uniforms s params))
      in s\<lparr>textures := set_buffer (textures s) nextBuffer rendered,
            currentBuffer := nextBuffer\<rparr>)"

definition step :: "lenia \<Rightarrow> draws \<Rightarrow> js_error + lenia" where
  "step s d =
     (let species = SPECIES s (currentSpecies s);
          s = (if mutationMode s then mutate s d else s)
      in case (case mutatedParams s of Some p \<Rightarrow> Some p | None \<Rightarrow> species) of
           None \<Rightarrow> Inl TypeError
         | Some params \<Rightarrow> Inr (step_draw s params))"

text \<open>Any number of ticks: one record of random draws per tick; an error stops the run.\<close>

fun steps :: "lenia \<Rightarrow> draws list \<Rightarrow> js_error + lenia" where
  "steps s [] = Inr s"
| "steps s (d # ds) = (case step s d of Inl e \<Rightarrow> Inl e | Inr s' \<Rightarrow> steps s' ds)"

subsection \<open>The ecosystem engine: class LeniaEcosystem\<close>

record ecosystem = engine +
  predationStrength :: real
  benefitStrength :: real
  time :: real

definition LeniaEcosystem_createTexture :: "nat \<Rightarrow> nat \<Rightarrow> texture" where
  "LeniaEcosystem_createTexture w h =
     \<lparr>tex_width = w, tex_height = h,
      TEXTURE_WRAP_S = CLAMP_TO_EDGE, TEXTURE_WRAP_T = CLAMP_TO_EDGE,
      pixels = replicate (w * h) (vec4 0 0 0 0)\<rparr>"

text \<open>The constructor followed by \<^verbatim>\<open>init\<close>; \<open>data\<close> is what \<^verbatim>\<open>seedEcosystem\<close> uploads.\<close>

definition LeniaEcosystem_constructor :: "nat \<Rightarrow> nat \<Rightarrow> vec4 list \<Rightarrow> ecosystem" where
  "LeniaEcosystem_constructor w h data =
     \<lparr>width = w, height = h,
      textures = ((LeniaEcosystem_createTexture w h)\<lparr>pixels := data\<rparr>,
                  LeniaEcosystem_createTexture w h),
      currentBuffer = 0, timeScale = 0.5,
      predationStrength = 0.15, benefitStrength = 0.12, time = 0\<rparr>"

definition LeniaEcosystem_uniforms :: "ecosystem \<Rightarrow> eco_uniforms" where
  "LeniaEcosystem_uniforms e =
     (let prey = ECOSYSTEM_SPECIES_prey; pred = ECOSYSTEM_SPECIES_predator;
          apex = ECOSYSTEM_SPECIES_apex
      in \<lparr>eco_u_state = buffer (textures e) (currentBuffer e),
          eco_u_resolution = (real (width e), real (height e)),
          eco_u_dt = timeScale e,
          eco_u_time = time e,
          eco_u_R = vec3 (R prey) (R pred) (R apex),
          eco_u_T = vec3 (T prey) (T pred) (T apex),
          eco_u_mu = vec3 (mu (growthParams prey)) (mu (growthParams pred))
                          (mu (growthParams apex)),
          eco_u_sigma = vec3 (sigma (growthParams prey)) (sigma (growthParams pred))
                             (sigma (growthParams apex)),
          u_predation = predationStrength e,
          u_benefit = benefitStrength e\<rparr>)"

definition LeniaEcosystem_step :: "ecosystem \<Rightarrow> ecosystem" where
  "LeniaEcosystem_step e =
     (let nextBuffer = 1 - currentBuffer e;
          rendered = drawArrays (buffer (textures e) nextBuffer) (width e) (height e)
                       (ECOSYSTEM_SIMULATION_SHADER (LeniaEcosystem_uniforms e))
      in e\<lparr>textures := set_buffer (textures e) nextBuffer rendered,
            currentBuffer := nextBuffer\<rparr>)"

subsection \<open>The preset store: class PresetGallery\<close>

record preset =
  preset_name :: string
  preset_R :: real
  preset_T :: real
  preset_mu :: real
  preset_sigma :: real
  preset_description :: string

record stored_preset = preset +
  created :: nat

text \<open>
  \<^verbatim>\<open>this.presets\<close> is a plain JavaScript object: its own enumerable properties in
  insertion order, and a prototype. \<open>proto = None\<close> is \<^verbatim>\<open>Object.prototype\<close> (an object
  literal or the result of \<^verbatim>\<open>JSON.parse\<close>); \<open>proto = Some v\<close> is the preset object \<open>v\<close>,
  itself an object literal, installed by an assignment to \<^verbatim>\<open>__proto__\<close>. The own
  values are preset objects, as \<^verbatim>\<open>savePreset\<close> stores them; a store read from JSON that
  holds other values (null, numbers, strings) is outside the model, and so is the order
  in which \<^verbatim>\<open>Object.keys\<close> lists integer-like names: only the number of keys is used.
\<close>

record presets_object =
  own :: "(string \<times> stored_preset) list"
  proto :: "stored_preset option"

record PresetGallery =
  presets :: presets_object
  maxPresets :: nat

text \<open>The property names every object inherits from \<^verbatim>\<open>Object.prototype\<close>.\<close>

definition Object_prototype_names :: "string list" where
  "Object_prototype_names =
     [''constructor'', ''__defineGetter__'', ''__defineSetter__'', ''hasOwnProperty'',
      ''__lookupGetter__'', ''__lookupSetter__'', ''isPrototypeOf'',
      ''propertyIsEnumerable'', ''toString'', ''valueOf'', ''__proto__'',
      ''toLocaleString'']"

text \<open>
  Truthiness of a property read on a stored preset object, \<open>None\<close> when the preset has
  no own property of that name: a string is truthy unless empty, a number unless zero.
\<close>

definition preset_property_truthy :: "stored_preset \<Rightarrow> string \<Rightarrow> bool option" where
  "preset_property_truthy v k =
     (if k = ''name'' then Some (preset_name v \<noteq> [])
      else if k = ''R'' then Some (preset_R v \<noteq> 0)
      else if k = ''T'' then Some (preset_T v \<noteq> 0)
      else if k = ''mu'' then Some (preset_mu v \<noteq> 0)
      else if k = ''sigma'' then Some (preset_sigma v \<noteq> 0)
      else if k = ''description'' then Some (preset_description v \<noteq> [])
      else if k = ''created'' then Some (created v \<noteq> 0)
      else None)"

text \<open>
  Truthiness of \<^verbatim>\<open>this.presets[id]\<close>: an own property holds a preset object (truthy);
  otherwise the read goes up the prototype chain, where \<^verbatim>\<open>__proto__\<close> yields the
  prototype object and the other inherited names yield functions.
\<close>

definition presets_truthy :: "presets_object \<Rightarrow> string \<Rightarrow> bool" where
  "presets_truthy obj k =
     (case map_of (own obj) k of
        Some v \<Rightarrow> True
      | None \<Rightarrow>
          if k = ''__proto__'' then True
          else (case proto obj of
                  None \<Rightarrow> k \<in> set Object_prototype_names
                | Some v \<Rightarrow>
                    (case preset_property_truthy v k of
                       Some b \<Rightarrow> b
                     | None \<Rightarrow> k \<in> set Object_prototype_names)))"

text \<open>
  The assignment \<^verbatim>\<open>this.presets[id] = v\<close>: an own property is overwritten in place, a new
  name is appended, and the name \<^verbatim>\<open>__proto__\<close> (when not an own property) replaces the
  prototype instead of storing anything.
\<close>

definition presets_assign :: "presets_object \<Rightarrow> string \<Rightarrow> stored_preset \<Rightarrow> presets_object" where
  "presets_assign obj k v =
     (if map_of (own obj) k = None \<and> k = ''__proto__'' then obj\<lparr>proto := Some v\<rparr>
      else obj\<lparr>own := AList.update k v (own obj)\<rparr>)"

definition Object_keys :: "presets_object \<Rightarrow> string list" where
  "Object_keys obj = map fst (own obj)"

text \<open>
  \<^verbatim>\<open>savePreset(id, params)\<close>; \<open>now\<close> is the value of \<^verbatim>\<open>Date.now()\<close>. The write to
  \<^verbatim>\<open>localStorage\<close> that follows swallows its own errors and is not modelled.
\<close>

definition savePreset :: "PresetGallery \<Rightarrow> string \<Rightarrow> preset \<Rightarrow> nat \<Rightarrow> js_error + PresetGallery" where
  "savePreset g ident params now =
     (if length (Object_keys (presets g)) \<ge> maxPresets g \<and> \<not> presets_truthy (presets g) ident
      then Inl (Error_Maximum_presets_reached (maxPresets g))
      else Inr (g\<lparr>presets := presets_assign (presets g) ident
                   (preset.extend params \<lparr>created = now\<rparr>)\<rparr>))"

subsection \<open>Predicates and sample inputs used in the statements\<close>

text \<open>The parameters a tick uses: \<^verbatim>\<open>this.mutatedParams || SPECIES[this.currentSpecies]\<close>.\<close>

definition active_params :: "lenia \<Rightarrow> species option" where
  "active_params s =
     (case mutatedParams s of Some p \<Rightarrow> Some p | None \<Rightarrow> SPECIES s (currentSpecies s))"

text \<open>A colour with every component in \<open>[0, 1]\<close>, and a texture holding only such.\<close>

definition unit_vec4 :: "vec4 \<Rightarrow> bool" where
  "unit_vec4 p \<longleftrightarrow>
     0 \<le> cr p \<and> cr p \<le> 1 \<and> 0 \<le> cg p \<and> cg p \<le> 1
     \<and> 0 \<le> cb p \<and> cb p \<le> 1 \<and> 0 \<le> ca p \<and> ca p \<le> 1"

definition field_bounded :: "texture \<Rightarrow> bool" where
  "field_bounded t \<longleftrightarrow> list_all unit_vec4 (pixels t)"

text \<open>The field an engine currently shows: the texture \<open>currentBuffer\<close> selects.\<close>

definition current :: "'a engine_scheme \<Rightarrow> texture" where
  "current e = buffer (textures e) (currentBuffer e)"

text \<open>
  What \<^verbatim>\<open>init\<close> establishes: both textures have the engine's width and height and one
  texel per pixel.
\<close>

definition texture_wf :: "nat \<Rightarrow> nat \<Rightarrow> texture \<Rightarrow> bool" where
  "texture_wf W H t \<longleftrightarrow> tex_width t = W \<and> tex_height t = H \<and> length (pixels t) = W * H"

definition engine_wf :: "'a engine_scheme \<Rightarrow> bool" where
  "engine_wf e \<longleftrightarrow>
     texture_wf (width e) (height e) (fst (textures e))
     \<and> texture_wf (width e) (height e) (snd (textures e))"

definition example_eco_field :: "vec4 list" where
  "example_eco_field = [vec4 0.5 0.25 0.125 1, vec4 0 0 0 1]"

definition example_ecosystem :: ecosystem where
  "example_ecosystem = LeniaEcosystem_constructor 2 1 example_eco_field"

text \<open>
  The distance of a neighbour offset \<open>(dy, dx)\<close>, the weight the convolution loops give
  it for kernel radius \<open>Rr\<close>, and the colour the loops sample for it.
\<close>

definition offset_dist :: "int \<times> int \<Rightarrow> real" where
  "offset_dist off =
     sqrt (real_of_int (snd off) * real_of_int (snd off)
           + real_of_int (fst off) * real_of_int (fst off))"

definition disc_weight :: "real \<Rightarrow> int \<times> int \<Rightarrow> real" where
  "disc_weight Rr off =
     (if offset_dist off \<le> Rr then kernel_w (offset_dist off / Rr) else 0)"

definition sim_sample :: "texture \<Rightarrow> real \<times> real \<Rightarrow> real \<times> real \<Rightarrow> int \<times> int \<Rightarrow> vec4" where
  "sim_sample t res tc off =
     texture2D t (fst tc + real_of_int (snd off) * (1 / fst res),
                  snd tc + real_of_int (fst off) * (1 / snd res))"

text \<open>
  The potential as the specification words it: the kernel-weighted average over exactly
  the neighbour offsets within Euclidean distance \<open>R\<close> (every such offset lies in the
  square of half-width \<open>\<lceil>R\<rceil>\<close>), the weight sum clamped from below by a small epsilon.
\<close>

definition disc_offsets :: "real \<Rightarrow> (int \<times> int) list" where
  "disc_offsets Rr = filter (\<lambda>off. offset_dist off \<le> Rr) (offsets \<lceil>Rr\<rceil>)"

definition spec_potential :: "sim_uniforms \<Rightarrow> real \<times> real \<Rightarrow> real" where
  "spec_potential u tc =
     (\<Sum>off\<leftarrow>disc_offsets (u_R u).
         kernel_w (offset_dist off / u_R u)
           * cr (sim_sample (u_state u) (u_resolution u) tc off))
     / max (\<Sum>off\<leftarrow>disc_offsets (u_R u). kernel_w (offset_dist off / u_R u)) 0.001"

text \<open>
  One channel of an ecosystem field as a single-species field: the ecosystem's own texture
  (same size, same wrap modes, so \<open>CLAMP_TO_EDGE\<close> for every texture
  \<^verbatim>\<open>LeniaEcosystem.createTexture\<close> makes, not the \<open>REPEAT\<close> of \<^verbatim>\<open>Lenia.createTexture\<close>) with
  that channel copied into the three colour channels; and the uniforms that run
  \<^verbatim>\<open>SIMULATION_SHADER\<close> on it with that channel's R, T, mu, sigma, the ecosystem's time
  step and no trail.
\<close>

definition channel_texture :: "(vec4 \<Rightarrow> real) \<Rightarrow> texture \<Rightarrow> texture" where
  "channel_texture sel t = t\<lparr>pixels := map (\<lambda>p. vec4 (sel p) (sel p) (sel p) 1) (pixels t)\<rparr>"

definition channel_uniforms ::
  "eco_uniforms \<Rightarrow> (vec4 \<Rightarrow> real) \<Rightarrow> (vec3 \<Rightarrow> real) \<Rightarrow> sim_uniforms" where
  "channel_uniforms u sel part =
     \<lparr>u_state = channel_texture sel (eco_u_state u),
      u_resolution = eco_u_resolution u,
      u_R = part (eco_u_R u), u_T = part (eco_u_T u),
      u_mu = part (eco_u_mu u), u_sigma = part (eco_u_sigma u),
      u_dt = eco_u_dt u, u_trail = 1\<rparr>"

text \<open>The ranges \<^verbatim>\<open>mutate\<close> clamps the four tunables to.\<close>

definition params_in_range :: "species \<Rightarrow> bool" where
  "params_in_range p \<longleftrightarrow>
     5 \<le> R p \<and> R p \<le> 20 \<and> 5 \<le> T p \<and> T p \<le> 20
     \<and> 0.05 \<le> mu (growthParams p) \<and> mu (growthParams p) \<le> 0.3
     \<and> 0.005 \<le> sigma (growthParams p) \<and> sigma (growthParams p) \<le> 0.05"

text \<open>\<open>N\<close> calls of \<^verbatim>\<open>mutate\<close>, one record of draws each.\<close>

definition mutate_steps :: "lenia \<Rightarrow> draws list \<Rightarrow> lenia" where
  "mutate_steps s ds = fold (\<lambda>d s. mutate s d) ds s"

definition example_species :: species where
  "example_species =
     \<lparr>name = ''Orbium (Mutating)'', color = [0.2, 0.6, 1.0], R = 10, T = 10,
      growthParams = \<lparr>mu = 0.15, sigma = 0.017\<rparr>, kernelParams = [1, 1, 1]\<rparr>"

definition example_field :: "vec4 list" where
  "example_field = [vec4 0.5 0.5 0.5 1, vec4 0 0 0 1]"

definition example_lenia :: lenia where
  "example_lenia = Lenia_constructor 2 1 example_field"

definition example_mutating :: lenia where
  "example_mutating =
     example_lenia\<lparr>mutationMode := True, mutatedParams := Some example_species\<rparr>"

definition example_draws :: draws where
  "example_draws =
     \<lparr>rand_R = 0.9, rand_T = 0.1, rand_mu = 0.75, rand_sigma = 0.25, rand_log = 0.5\<rparr>"

definition example_preset :: preset where
  "example_preset =
     \<lparr>preset_name = ''Glider'', preset_R = 12, preset_T = 18, preset_mu = 0.14,
      preset_sigma = 0.015, preset_description = ''User saved preset''\<rparr>"

text \<open>A gallery holding 20 presets, with the ids \<open>a\<close> to \<open>t\<close>.\<close>

definition full_gallery :: PresetGallery where
  "full_gallery =
     \<lparr>presets = \<lparr>own = map (\<lambda>c. ([c], preset.extend example_preset \<lparr>created = 0\<rparr>))
                             ''abcdefghijklmnopqrst'',
                 proto = None\<rparr>,
      maxPresets = 20\<rparr>"

text \<open>
  A field of 32 by 1 pixels that is empty but for pixel 13, and the uniforms of a tick on
  it with kernel radius 20, the largest radius \<^verbatim>\<open>mutate\<close> allows.
\<close>

definition wide_field :: "vec4 list" where
  "wide_field = map (\<lambda>k. if k = 13 then vec4 1 1 1 1 else vec4 0 0 0 1) [0..<32]"

definition wide_uniforms :: sim_uniforms where
  "wide_uniforms =
     Lenia_uniforms (Lenia_constructor 32 1 wide_field) (example_species\<lparr>R := 20\<rparr>)"

text \<open>An ecosystem of one pixel, full of prey and predators, with both strengths at 0.\<close>

definition crowded_ecosystem :: ecosystem where
  "crowded_ecosystem =
     (LeniaEcosystem_constructor 1 1 [vec4 1 1 0 1])
       \<lparr>predationStrength := 0, benefitStrength := 0\<rparr>"

text \<open>
  An ecosystem of 2 by 1 pixels with both strengths at 0 and a total density below the
  crowding threshold at its first pixel.
\<close>

definition quiet_ecosystem :: ecosystem where
  "quiet_ecosystem =
     (LeniaEcosystem_constructor 2 1 [vec4 0.25 0.125 0.0625 1, vec4 0 0 0 1])
       \<lparr>predationStrength := 0, benefitStrength := 0\<rparr>"

text \<open>An ecosystem of one pixel that holds apex only, at density 0.5.\<close>

definition lone_apex_ecosystem :: ecosystem where
  "lone_apex_ecosystem = LeniaEcosystem_constructor 1 1 [vec4 0 0 0.5 1]"

text \<open>A single-species field of 4 by 1 pixels and one of 3 by 1 pixels.\<close>

definition four_field :: "vec4 list" where
  "four_field = [vec4 0.1 0.1 0.1 1, vec4 0.5 0.5 0.5 1, vec4 0.7 0.7 0.7 1, vec4 0.9 0.9 0.9 1]"

definition three_field :: "vec4 list" where
  "three_field = [vec4 0.1 0 0 1, vec4 0.5 0 0 1, vec4 0.9 0 0 1]"

section \<open>Properties\<close>

text \<open>
  C8: the growth function is 1 at \<open>mu\<close>, is even about \<open>mu\<close>
  (\<open>growth (mu - k sigma) = growth (mu + k sigma)\<close> for \<open>sigma > 0\<close> and every \<open>k\<close>),
  and its values lie in the half-open interval \<open>(-1, 1]\<close>.
\<close>

theorem growth_symmetry_and_range:
  assumes "0 < sg"
  shows "growth m m sg = 1
       \<and> growth (m - k * sg) m sg = growth (m + k * sg) m sg
       \<and> - 1 < growth x m sg \<and> growth x m sg \<le> 1"
proof -
  have a: "growth m m sg = 1"
    by (simp add: growth_def)
  have b: "growth (m - k * sg) m sg = growth (m + k * sg) m sg"
    using assms by (simp add: growth_def Let_def)
  have "0 \<le> ((x - m) / sg) * ((x - m) / sg)"
    by simp
  then have "exp (- ((x - m) / sg) * ((x - m) / sg) / 2) \<le> 1"
    by simp
  then have c: "growth x m sg \<le> 1"
    by (simp add: growth_def Let_def)
  have d: "- 1 < growth x m sg"
    by (simp add: growth_def Let_def)
  from a b c d show ?thesis by simp
qed

theorem growth_symmetry_and_range_witness:
  "(0 :: real) < 0.017
   \<and> growth 0.15 0.15 0.017 = 1
   \<and> growth (0.15 - 2 * 0.017) 0.15 0.017 = growth (0.15 + 2 * 0.017) 0.15 0.017
   \<and> - 1 < growth 0.9 0.15 0.017 \<and> growth 0.9 0.15 0.017 \<le> 1"
proof -
  have h: "(0 :: real) < 0.017" by simp
  show ?thesis
    using h growth_symmetry_and_range [OF h, where m = "0.15" and k = 2 and x = "0.9"] by simp
qed

subsection \<open>Mutation\<close>

lemma mutate_Some:
  "mutatedParams s = Some p \<Longrightarrow>
   mutatedParams (mutate s d) = Some (p\<lparr>
       R := max 5 (min 20 (R p + (rand_R d - 0.5) * mutationSpeed s * 100)),
       T := max 5 (min 20 (T p + (rand_T d - 0.5) * mutationSpeed s * 100)),
       growthParams := (growthParams p)\<lparr>
         mu := max 0.05 (min 0.3 (mu (growthParams p) + (rand_mu d - 0.5) * mutationSpeed s)),
         sigma := max 0.005 (min 0.05
                    (sigma (growthParams p) + (rand_sigma d - 0.5) * mutationSpeed s * 0.1))\<rparr>\<rparr>)"
  by (simp add: mutate_def Let_def)

lemma mutate_in_range:
  "mutatedParams s = Some p \<Longrightarrow> \<exists>q. mutatedParams (mutate s d) = Some q \<and> params_in_range q"
  by (simp add: mutate_Some params_in_range_def) (auto simp: max_def min_def)

lemma mutate_steps_in_range:
  "mutatedParams s = Some p \<Longrightarrow> params_in_range p \<Longrightarrow>
   \<exists>q. mutatedParams (mutate_steps s ds) = Some q \<and> params_in_range q"
proof (induction ds arbitrary: s p)
  case Nil
  then show ?case by (simp add: mutate_steps_def)
next
  case (Cons d ds)
  obtain q where q: "mutatedParams (mutate s d) = Some q" "params_in_range q"
    using mutate_in_range [OF Cons.prems(1)] by blast
  have "mutate_steps s (d # ds) = mutate_steps (mutate s d) ds"
    by (simp add: mutate_steps_def)
  with Cons.IH [OF q] show ?case by simp
qed

text \<open>
  C7: from a parameter record within the ranges R, T in [5, 20], mu in [0.05, 0.3],
  sigma in [0.005, 0.05], one call of \<^verbatim>\<open>mutate\<close> adds \<open>(rand - 0.5) * speed * scale\<close>
  (scale 100, 100, 1, 0.1) to each tunable and clamps it to its range, and after any
  number of calls, with any draws, every parameter is within its range.
\<close>

theorem mutation_bounds:
  assumes "mutatedParams s = Some p" and "params_in_range p"
  shows "mutatedParams (mutate s d) = Some (p\<lparr>
             R := max 5 (min 20 (R p + (rand_R d - 0.5) * mutationSpeed s * 100)),
             T := max 5 (min 20 (T p + (rand_T d - 0.5) * mutationSpeed s * 100)),
             growthParams := (growthParams p)\<lparr>
               mu := max 0.05 (min 0.3
                       (mu (growthParams p) + (rand_mu d - 0.5) * mutationSpeed s)),
               sigma := max 0.005 (min 0.05
                       (sigma (growthParams p)
                          + (rand_sigma d - 0.5) * mutationSpeed s * 0.1))\<rparr>\<rparr>)
       \<and> (\<exists>q. mutatedParams (mutate_steps s ds) = Some q \<and> params_in_range q)"
  using mutate_Some [OF assms(1)] mutate_steps_in_range [OF assms] by simp

theorem mutation_bounds_witness:
  "mutatedParams example_mutating = Some example_species
   \<and> params_in_range example_species
   \<and> (\<exists>q. mutatedParams (mutate_steps example_mutating [example_draws, example_draws]) = Some q
          \<and> params_in_range q)"
proof -
  have h1: "mutatedParams example_mutating = Some example_species"
    by (simp add: example_mutating_def)
  have h2: "params_in_range example_species"
    by (simp add: params_in_range_def example_species_def)
  show ?thesis
    using h1 h2 mutation_bounds [OF h1 h2, of example_draws "[example_draws, example_draws]"]
    by simp
qed

subsection \<open>Parameter assignment\<close>

text \<open>
  C4 as stated (a record with R, T or sigma at most 0 is rejected with an error and
  never silently replaced) fails: with R = -5, T = 0 and sigma = -1 the call returns
  normally, stores R = -5 and sigma = -1 as they are, and replaces T = 0 by the current
  species' T = 10.
\<close>

theorem setParameters_accepts_nonpositive:
  "\<not> isl (setParameters example_lenia
            \<lparr>param_R = Some (- 5), param_T = Some 0, param_mu = Some 0.15,
             param_sigma = Some (- 1)\<rparr>)
   \<and> map_option R (SPECIES (projr (setParameters example_lenia
            \<lparr>param_R = Some (- 5), param_T = Some 0, param_mu = Some 0.15,
             param_sigma = Some (- 1)\<rparr>)) ''custom'') = Some (- 5)
   \<and> map_option T (SPECIES (projr (setParameters example_lenia
            \<lparr>param_R = Some (- 5), param_T = Some 0, param_mu = Some 0.15,
             param_sigma = Some (- 1)\<rparr>)) ''custom'') = Some 10
   \<and> map_option (\<lambda>c. sigma (growthParams c)) (SPECIES (projr (setParameters example_lenia
            \<lparr>param_R = Some (- 5), param_T = Some 0, param_mu = Some 0.15,
             param_sigma = Some (- 1)\<rparr>)) ''custom'') = Some (- 1)"
  by (simp add: setParameters_def example_lenia_def Lenia_constructor_def SPECIES_table_def
        js_or_def Let_def)

text \<open>
  C4, amended: \<^verbatim>\<open>setParameters\<close> never rejects a record. Whenever the current species
  is in the table the call returns normally and makes \<open>custom\<close> the current species;
  each of R, T, mu, sigma that is missing or zero is replaced by the current species'
  value, and every other value, negative ones included, is stored unchanged.
\<close>

theorem setParameters_never_rejects:
  assumes "SPECIES s (currentSpecies s) = Some base"
  shows "\<exists>s' c. setParameters s params = Inr s' \<and> currentSpecies s' = ''custom''
           \<and> SPECIES s' ''custom'' = Some c
           \<and> R c = (if param_R params = None \<or> param_R params = Some 0 then R base
                    else the (param_R params))
           \<and> T c = (if param_T params = None \<or> param_T params = Some 0 then T base
                    else the (param_T params))
           \<and> mu (growthParams c) =
               (if param_mu params = None \<or> param_mu params = Some 0
                then mu (growthParams base) else the (param_mu params))
           \<and> sigma (growthParams c) =
               (if param_sigma params = None \<or> param_sigma params = Some 0
                then sigma (growthParams base) else the (param_sigma params))"
  using assms
  by (auto simp: setParameters_def Let_def js_or_def split: option.splits)

theorem setParameters_never_rejects_witness:
  "SPECIES example_mutating (currentSpecies example_mutating) = SPECIES_table ''orbium''
   \<and> (\<exists>s' c. setParameters example_mutating
                 \<lparr>param_R = Some (- 5), param_T = None, param_mu = Some 0,
                  param_sigma = Some 0.02\<rparr> = Inr s'
          \<and> SPECIES s' ''custom'' = Some c \<and> R c = - 5 \<and> T c = 10
          \<and> mu (growthParams c) = 0.15 \<and> sigma (growthParams c) = 0.02)"
proof -
  have h: "SPECIES example_mutating (currentSpecies example_mutating)
             = Some \<lparr>name = ''Orbium'', color = [0.2, 0.6, 1.0], R = 10, T = 10,
                     growthParams = \<lparr>mu = 0.15, sigma = 0.017\<rparr>, kernelParams = [1, 1, 1]\<rparr>"
    by (simp add: example_mutating_def example_lenia_def Lenia_constructor_def
          SPECIES_table_def)
  have t: "SPECIES example_mutating (currentSpecies example_mutating) = SPECIES_table ''orbium''"
    by (simp add: example_mutating_def example_lenia_def Lenia_constructor_def)
  from setParameters_never_rejects [OF h, of
      "\<lparr>param_R = Some (- 5), param_T = None, param_mu = Some 0, param_sigma = Some 0.02\<rparr>"]
  obtain s' c where "setParameters example_mutating
                 \<lparr>param_R = Some (- 5), param_T = None, param_mu = Some 0,
                  param_sigma = Some 0.02\<rparr> = Inr s'"
          "SPECIES s' ''custom'' = Some c" "R c = - 5" "T c = 10"
          "mu (growthParams c) = 0.15" "sigma (growthParams c) = 0.02"
    by auto
  with t show ?thesis by blast
qed

subsection \<open>Preset store\<close>

lemma savePreset_full_new_id:
  assumes "length (Object_keys (presets g)) \<ge> maxPresets g"
      and "map_of (own (presets g)) ident = None"
      and "proto (presets g) = None"
      and "ident \<notin> set Object_prototype_names"
  shows "savePreset g ident params now = Inl (Error_Maximum_presets_reached (maxPresets g))"
  using assms by (simp add: savePreset_def presets_truthy_def Object_prototype_names_def)

lemma savePreset_overwrite:
  assumes "map_of (own (presets g)) ident = Some old"
  shows "\<exists>g'. savePreset g ident params now = Inr g'
          \<and> map_of (own (presets g')) ident = Some (preset.extend params \<lparr>created = now\<rparr>)
          \<and> Object_keys (presets g') = Object_keys (presets g)"
proof -
  have "ident \<in> fst ` set (own (presets g))"
    using assms by (force dest: map_of_SomeD)
  then show ?thesis
    using assms
    by (simp add: savePreset_def presets_truthy_def presets_assign_def Object_keys_def
          update_conv' AList.update_keys)
qed

text \<open>
  C9 (with 20 presets stored, saving under an id that is not in the store throws and
  leaves the store unchanged): the code breaks it for an id that names a property every
  object inherits. The store below holds 20 presets and none under \<open>constructor\<close>, yet
  \<^verbatim>\<open>savePreset\<close> returns normally and stores a 21st preset.
\<close>

theorem savePreset_inherited_name_passes_limit:
  "length (Object_keys (presets full_gallery)) = 20
   \<and> maxPresets full_gallery = 20
   \<and> map_of (own (presets full_gallery)) ''constructor'' = None
   \<and> savePreset full_gallery ''constructor'' example_preset 1 =
       Inr (full_gallery\<lparr>presets := (presets full_gallery)
              \<lparr>own := own (presets full_gallery)
                  @ [(''constructor'', preset.extend example_preset \<lparr>created = 1\<rparr>)]\<rparr>\<rparr>)"
  by (simp add: savePreset_def full_gallery_def Object_keys_def presets_truthy_def
        Object_prototype_names_def presets_assign_def)

subsection \<open>Ecosystem interactions\<close>

lemma eco_loop_body_predation:
  "eco_loop_body (u\<lparr>u_predation := q\<rparr>) = eco_loop_body u"
  by (simp add: eco_loop_body_def fun_eq_iff Let_def)

lemma eco_potentials_predation:
  "eco_potentials (u\<lparr>u_predation := q\<rparr>) tc = eco_potentials u tc"
  by (simp add: eco_potentials_def eco_loop_body_predation)

lemma clamp_mono: "a \<le> b \<Longrightarrow> clamp a 0 1 \<le> clamp b 0 1"
  by (simp add: clamp_def min_def max_def)

text \<open>
  C10, amended: in the ecosystem step the predation loss is subtracted from the prey
  channel (\<open>pred * predation * prey\<close>) and from the predator channel
  (\<open>apex * predation * pred\<close>) and from the apex channel never: the new apex value is
  \<open>clamp (apex + G * dt / T + gain - crowding * apex, 0, 1) * 0.9990\<close>, where \<open>G\<close> is
  the apex's own growth term (negative whenever the apex potential is away from \<open>mu\<close>),
  \<open>gain = pred * benefit * apex * 0.3\<close> and
  \<open>crowding = 0.1 * smoothstep (0.5, 1.5, total density)\<close>. It does not depend on the
  predation strength, and the one term that reads another species' density directly, the
  gain, is not negative for a non-negative benefit strength and non-negative densities:
  the new apex value is then at least the value without the gain, so that it is lowered
  only by its own growth term, the crowding term and the decay factor 0.9990.
\<close>

theorem apex_has_no_predation_loss:
  "(let c = texture2D (eco_u_state u) tc;
        U = eco_potentials u tc;
        crowding = smoothstep 0.5 1.5 (cr c + cg c + cb c) * 0.1
    in cr (ECOSYSTEM_SIMULATION_SHADER u tc) =
         clamp (cr c + growth (vx U) (vx (eco_u_mu u)) (vx (eco_u_sigma u))
                         * eco_u_dt u / vx (eco_u_T u)
                - cg c * u_predation u * cr c - crowding * cr c) 0 1 * 0.9995
     \<and> cg (ECOSYSTEM_SIMULATION_SHADER u tc) =
         clamp (cg c + growth (vy U) (vy (eco_u_mu u)) (vy (eco_u_sigma u))
                         * eco_u_dt u / vy (eco_u_T u)
                + cr c * u_benefit u * cg c * 0.5
                - cb c * u_predation u * cg c - crowding * cg c) 0 1 * 0.9993
     \<and> cb (ECOSYSTEM_SIMULATION_SHADER u tc) =
         clamp (cb c + growth (vz U) (vz (eco_u_mu u)) (vz (eco_u_sigma u))
                         * eco_u_dt u / vz (eco_u_T u)
                + cg c * u_benefit u * cb c * 0.3
                - crowding * cb c) 0 1 * 0.9990
     \<and> (0 \<le> u_benefit u \<and> 0 \<le> cg c \<and> 0 \<le> cb c
          \<longrightarrow> 0 \<le> cg c * u_benefit u * cb c * 0.3
              \<and> clamp (cb c + growth (vz U) (vz (eco_u_mu u)) (vz (eco_u_sigma u))
                                 * eco_u_dt u / vz (eco_u_T u)
                        - crowding * cb c) 0 1 * 0.9990
                  \<le> cb (ECOSYSTEM_SIMULATION_SHADER u tc)))
   \<and> cb (ECOSYSTEM_SIMULATION_SHADER (u\<lparr>u_predation := q\<rparr>) tc)
       = cb (ECOSYSTEM_SIMULATION_SHADER u tc)"
proof -
  define c where "c = texture2D (eco_u_state u) tc"
  define U where "U = eco_potentials u tc"
  define crowding where "crowding = smoothstep 0.5 1.5 (cr c + cg c + cb c) * 0.1"
  define own where "own = cb c + growth (vz U) (vz (eco_u_mu u)) (vz (eco_u_sigma u))
                                 * eco_u_dt u / vz (eco_u_T u)"
  define gain where "gain = cg c * u_benefit u * cb c * 0.3"
  have f1: "cr (ECOSYSTEM_SIMULATION_SHADER u tc) =
         clamp (cr c + growth (vx U) (vx (eco_u_mu u)) (vx (eco_u_sigma u))
                         * eco_u_dt u / vx (eco_u_T u)
                - cg c * u_predation u * cr c - crowding * cr c) 0 1 * 0.9995"
    by (simp add: ECOSYSTEM_SIMULATION_SHADER_def Let_def c_def U_def crowding_def)
  have f2: "cg (ECOSYSTEM_SIMULATION_SHADER u tc) =
         clamp (cg c + growth (vy U) (vy (eco_u_mu u)) (vy (eco_u_sigma u))
                         * eco_u_dt u / vy (eco_u_T u)
                + cr c * u_benefit u * cg c * 0.5
                - cb c * u_predation u * cg c - crowding * cg c) 0 1 * 0.9993"
    by (simp add: ECOSYSTEM_SIMULATION_SHADER_def Let_def c_def U_def crowding_def)
  have f3: "cb (ECOSYSTEM_SIMULATION_SHADER u tc) = clamp (own + gain - crowding * cb c) 0 1 * 0.9990"
    by (simp add: ECOSYSTEM_SIMULATION_SHADER_def Let_def c_def U_def crowding_def own_def
          gain_def)
  have g: "0 \<le> gain" if "0 \<le> u_benefit u" "0 \<le> cg c" "0 \<le> cb c"
    unfolding gain_def using that by simp
  have lo: "clamp (own - crowding * cb c) 0 1 * 0.9990 \<le> cb (ECOSYSTEM_SIMULATION_SHADER u tc)"
    if "0 \<le> u_benefit u" "0 \<le> cg c" "0 \<le> cb c"
  proof -
    have "own - crowding * cb c \<le> own + gain - crowding * cb c"
      using g [OF that] by simp
    then have "clamp (own - crowding * cb c) 0 1 \<le> clamp (own + gain - crowding * cb c) 0 1"
      by (rule clamp_mono)
    then show ?thesis unfolding f3 by simp
  qed
  have ind: "cb (ECOSYSTEM_SIMULATION_SHADER (u\<lparr>u_predation := q\<rparr>) tc)
       = cb (ECOSYSTEM_SIMULATION_SHADER u tc)"
    by (simp add: ECOSYSTEM_SIMULATION_SHADER_def Let_def eco_potentials_predation)
  show ?thesis
    unfolding Let_def c_def [symmetric] U_def [symmetric] crowding_def [symmetric]
    using f1 f2 f3 g lo ind unfolding own_def gain_def by blast
qed

subsection \<open>Boundedness of the update step\<close>

lemma clamp_unit: "0 \<le> clamp x 0 1 \<and> clamp x 0 1 \<le> 1"
  by (simp add: clamp_def)

lemma sim_shader_unit:
  assumes "0 \<le> u_trail u" and "u_trail u \<le> 1"
  shows "unit_vec4 (SIMULATION_SHADER u tc)"
proof -
  define c where "c = clamp (cr (texture2D (u_state u) tc)
      + growth (sim_potential u tc) (u_mu u) (u_sigma u) * u_dt u / u_T u) 0 1"
  have c: "0 \<le> c" "c \<le> 1" using clamp_unit by (simp_all add: c_def)
  have 1: "0 \<le> c * u_trail u" using c assms by simp
  have 2: "c * u_trail u \<le> 1" using c assms by (simp add: mult_le_one)
  have "SIMULATION_SHADER u tc = vec4 (c * u_trail u) (c * u_trail u) (c * u_trail u) 1"
    by (simp add: SIMULATION_SHADER_def Let_def c_def)
  with 1 2 show ?thesis by (simp add: unit_vec4_def)
qed

lemma eco_shader_unit: "unit_vec4 (ECOSYSTEM_SIMULATION_SHADER u tc)"
proof -
  obtain p q r where e: "ECOSYSTEM_SIMULATION_SHADER u tc
      = vec4 (clamp p 0 1 * 0.9995) (clamp q 0 1 * 0.9993) (clamp r 0 1 * 0.9990) 1"
    by (simp add: ECOSYSTEM_SIMULATION_SHADER_def Let_def)
  have "0 \<le> clamp p 0 1" "clamp p 0 1 \<le> 1" "0 \<le> clamp q 0 1" "clamp q 0 1 \<le> 1"
       "0 \<le> clamp r 0 1" "clamp r 0 1 \<le> 1"
    using clamp_unit by simp_all
  then show ?thesis
    unfolding e unit_vec4_def vec4.sel by simp
qed

lemma drawArrays_wf:
  "texture_wf W H target \<Longrightarrow> texture_wf W H (drawArrays target W H sh)"
  by (simp add: texture_wf_def drawArrays_def)

lemma drawArrays_bounded:
  assumes "texture_wf W H target" and "\<And>tc. unit_vec4 (sh tc)"
  shows "field_bounded (drawArrays target W H sh)"
proof -
  have "\<And>k. k < W * H \<Longrightarrow> k mod W < W \<and> k div W < H"
    by (metis less_mult_imp_div_less mod_less_divisor mult.commute mult_0 not_gr_zero not_less_zero)
  then show ?thesis
    using assms by (auto simp: field_bounded_def drawArrays_def list_all_iff texture_wf_def Let_def)
qed


lemma mutate_fields:
  "textures (mutate s d) = textures s"
  "width (mutate s d) = width s"
  "height (mutate s d) = height s"
  "currentBuffer (mutate s d) = currentBuffer s"
  "timeScale (mutate s d) = timeScale s"
  "trailEnabled (mutate s d) = trailEnabled s"
  "trailAmount (mutate s d) = trailAmount s"
  "SPECIES (mutate s d) = SPECIES s"
  "currentSpecies (mutate s d) = currentSpecies s"
  "mutationMode (mutate s d) = mutationMode s"
  by (cases "mutatedParams s"; simp add: mutate_def Let_def)+

lemma mutate_None_iff: "mutatedParams (mutate s d) = None \<longleftrightarrow> mutatedParams s = None"
  by (cases "mutatedParams s") (simp_all add: mutate_def Let_def)


lemma buffer_wf:
  "engine_wf e \<Longrightarrow> texture_wf (width e) (height e) (buffer (textures e) i)"
  by (simp add: engine_wf_def buffer_def)

lemma step_draw_fields:
  "trailAmount (step_draw s p) = trailAmount s"
  "SPECIES (step_draw s p) = SPECIES s"
  "currentSpecies (step_draw s p) = currentSpecies s"
  "mutatedParams (step_draw s p) = mutatedParams s"
  "width (step_draw s p) = width s"
  "height (step_draw s p) = height s"
  by (simp_all add: step_draw_def Let_def)

lemma step_draw_current:
  "current (step_draw s p) =
     drawArrays (buffer (textures s) (1 - currentBuffer s)) (width s) (height s)
       (SIMULATION_SHADER (Lenia_uniforms s p))"
  by (simp add: step_draw_def Let_def current_def buffer_def set_buffer_def)

lemma step_draw_wf:
  assumes "engine_wf s"
  shows "engine_wf (step_draw s p)"
proof -
  define nb where "nb = 1 - currentBuffer s"
  define r where "r = drawArrays (buffer (textures s) nb) (width s) (height s)
                        (SIMULATION_SHADER (Lenia_uniforms s p))"
  have rw: "texture_wf (width s) (height s) r"
    unfolding r_def using buffer_wf [OF assms] by (rule drawArrays_wf)
  have "step_draw s p = s\<lparr>textures := set_buffer (textures s) nb r, currentBuffer := nb\<rparr>"
    by (simp add: step_draw_def Let_def nb_def r_def)
  then show ?thesis
    using assms rw by (simp add: engine_wf_def set_buffer_def)
qed

lemma step_draw_bounded:
  assumes "engine_wf s" and "0 \<le> trailAmount s" and "trailAmount s \<le> 1"
  shows "field_bounded (current (step_draw s p))"
proof -
  have u: "0 \<le> u_trail (Lenia_uniforms s p)" "u_trail (Lenia_uniforms s p) \<le> 1"
    using assms(2,3) by (simp_all add: Lenia_uniforms_def)
  show ?thesis
    unfolding step_draw_current
    using buffer_wf [OF assms(1)] sim_shader_unit [OF u] by (rule drawArrays_bounded)
qed

text \<open>The state a tick draws from: the state after the optional mutation.\<close>

lemma step_Inr:
  assumes "SPECIES s (currentSpecies s) \<noteq> None"
  shows "\<exists>s1 p. step s d = Inr (step_draw s1 p) \<and> active_params s1 = Some p
          \<and> s1 = (if mutationMode s then mutate s d else s)"
proof -
  define s1 where "s1 = (if mutationMode s then mutate s d else s)"
  have sp: "SPECIES s1 (currentSpecies s1) = SPECIES s (currentSpecies s)"
    by (simp add: s1_def mutate_fields)
  obtain p where p: "active_params s1 = Some p"
    using assms sp by (cases "mutatedParams s1") (auto simp: active_params_def)
  have "step s d = (case active_params s1 of None \<Rightarrow> Inl TypeError
                    | Some params \<Rightarrow> Inr (step_draw s1 params))"
    unfolding step_def Let_def active_params_def s1_def [symmetric] sp ..
  with p show ?thesis unfolding s1_def by simp
qed


lemma step_invariant:
  assumes wf: "engine_wf s" and tr: "0 \<le> trailAmount s" "trailAmount s \<le> 1"
      and sp: "SPECIES s (currentSpecies s) \<noteq> None"
  shows "\<exists>s'. step s d = Inr s' \<and> engine_wf s' \<and> trailAmount s' = trailAmount s
           \<and> SPECIES s' (currentSpecies s') = SPECIES s (currentSpecies s)
           \<and> field_bounded (current s')"
proof -
  obtain s1 p where st: "step s d = Inr (step_draw s1 p)"
      and s1: "s1 = (if mutationMode s then mutate s d else s)"
    using step_Inr [OF sp] by blast
  have f: "engine_wf s1" "trailAmount s1 = trailAmount s"
      "SPECIES s1 (currentSpecies s1) = SPECIES s (currentSpecies s)"
    using wf by (simp_all add: s1 engine_wf_def mutate_fields)
  have "engine_wf (step_draw s1 p)"
    using f(1) by (rule step_draw_wf)
  moreover have "field_bounded (current (step_draw s1 p))"
    using f(1) tr by (intro step_draw_bounded) (simp_all add: f(2))
  ultimately show ?thesis
    using st f by (simp add: step_draw_fields)
qed

lemma steps_invariant:
  assumes "engine_wf s" and "0 \<le> trailAmount s" and "trailAmount s \<le> 1"
      and "SPECIES s (currentSpecies s) \<noteq> None" and "field_bounded (current s)"
  shows "\<exists>s'. steps s ds = Inr s' \<and> field_bounded (current s')"
  using assms
proof (induction ds arbitrary: s)
  case Nil
  then show ?case by simp
next
  case (Cons d ds)
  obtain s1 where s1: "step s d = Inr s1" "engine_wf s1" "trailAmount s1 = trailAmount s"
      "SPECIES s1 (currentSpecies s1) = SPECIES s (currentSpecies s)" "field_bounded (current s1)"
    using step_invariant [OF Cons.prems(1-4)] by blast
  have "\<exists>s'. steps s1 ds = Inr s' \<and> field_bounded (current s')"
    using Cons.IH [of s1] s1 Cons.prems by simp
  then show ?case using s1(1) by simp
qed

lemma eco_step_invariant:
  assumes "engine_wf e"
  shows "engine_wf (LeniaEcosystem_step e) \<and> field_bounded (current (LeniaEcosystem_step e))"
proof -
  define nb where "nb = 1 - currentBuffer e"
  define r where "r = drawArrays (buffer (textures e) nb)
      (width e) (height e) (ECOSYSTEM_SIMULATION_SHADER (LeniaEcosystem_uniforms e))"
  have tw: "texture_wf (width e) (height e) (buffer (textures e) nb)"
    using assms by (rule buffer_wf)
  have rw: "texture_wf (width e) (height e) r"
    unfolding r_def using tw by (rule drawArrays_wf)
  have rb: "field_bounded r"
    unfolding r_def using tw eco_shader_unit by (rule drawArrays_bounded)
  have st: "LeniaEcosystem_step e = e\<lparr>textures := set_buffer (textures e) nb r,
        currentBuffer := nb\<rparr>"
    by (simp add: LeniaEcosystem_step_def Let_def r_def nb_def)
  show ?thesis
    unfolding st using assms rw rb
    by (simp add: engine_wf_def set_buffer_def current_def buffer_def)
qed

lemma eco_steps_invariant:
  assumes "engine_wf e" and "field_bounded (current e)"
  shows "engine_wf ((LeniaEcosystem_step ^^ n) e)
       \<and> field_bounded (current ((LeniaEcosystem_step ^^ n) e))"
  using assms by (induction n) (simp_all add: eco_step_invariant)

text \<open>
  C1: in a well-formed engine (both textures of the engine's size) whose trail factor is
  in \<open>[0, 1]\<close>, one tick of the single-species engine (trail multiplication included)
  and one tick of the ecosystem engine (decay factors included) leave a current field
  whose stored values are all in \<open>[0, 1]\<close>, and so does any number of ticks from a field
  with values in \<open>[0, 1]\<close>; the single-species ticks return normally.
\<close>

theorem boundedness:
  assumes "engine_wf s" and "0 \<le> trailAmount s" and "trailAmount s \<le> 1"
      and "SPECIES s (currentSpecies s) \<noteq> None" and "field_bounded (current s)"
      and "engine_wf e" and "field_bounded (current e)"
  shows "(\<exists>s'. step s d = Inr s' \<and> field_bounded (current s'))
       \<and> (\<exists>s'. steps s ds = Inr s' \<and> field_bounded (current s'))
       \<and> field_bounded (current (LeniaEcosystem_step e))
       \<and> field_bounded (current ((LeniaEcosystem_step ^^ n) e))"
  using step_invariant [OF assms(1-4), of d] steps_invariant [OF assms(1-5), of ds]
    eco_step_invariant [OF assms(6)] eco_steps_invariant [OF assms(6,7), of n]
  by blast

lemma example_lenia_wf: "engine_wf example_lenia"
  by (simp add: engine_wf_def texture_wf_def example_lenia_def Lenia_constructor_def
        Lenia_createTexture_def example_field_def)

lemma example_ecosystem_wf: "engine_wf example_ecosystem"
  by (simp add: engine_wf_def texture_wf_def example_ecosystem_def LeniaEcosystem_constructor_def
        LeniaEcosystem_createTexture_def example_eco_field_def)

theorem boundedness_witness:
  "engine_wf example_lenia \<and> 0 \<le> trailAmount example_lenia \<and> trailAmount example_lenia \<le> 1
   \<and> SPECIES example_lenia (currentSpecies example_lenia) \<noteq> None
   \<and> field_bounded (current example_lenia)
   \<and> engine_wf example_ecosystem \<and> field_bounded (current example_ecosystem)
   \<and> (\<exists>s'. steps example_lenia [example_draws, example_draws] = Inr s'
          \<and> field_bounded (current s'))
   \<and> field_bounded (current ((LeniaEcosystem_step ^^ 3) example_ecosystem))"
proof -
  have h1: "engine_wf example_lenia" by (rule example_lenia_wf)
  have h2: "0 \<le> trailAmount example_lenia"
    by (simp add: example_lenia_def Lenia_constructor_def)
  have h3: "trailAmount example_lenia \<le> 1"
    by (simp add: example_lenia_def Lenia_constructor_def)
  have h4: "SPECIES example_lenia (currentSpecies example_lenia) \<noteq> None"
    by (simp add: example_lenia_def Lenia_constructor_def SPECIES_table_def)
  have h5: "field_bounded (current example_lenia)"
    by (simp add: field_bounded_def current_def buffer_def example_lenia_def
          Lenia_constructor_def example_field_def unit_vec4_def)
  have h6: "engine_wf example_ecosystem" by (rule example_ecosystem_wf)
  have h7: "field_bounded (current example_ecosystem)"
    by (simp add: field_bounded_def current_def buffer_def example_ecosystem_def
          LeniaEcosystem_constructor_def example_eco_field_def unit_vec4_def)
  show ?thesis
    using h1 h2 h3 h4 h5 h6 h7
      boundedness [OF h1 h2 h3 h4 h5 h6 h7, of example_draws "[example_draws, example_draws]" 3]
    by blast
qed

theorem apex_has_no_predation_loss_witness:
  "0 \<le> u_benefit (LeniaEcosystem_uniforms example_ecosystem)
   \<and> 0 \<le> cg (texture2D (eco_u_state (LeniaEcosystem_uniforms example_ecosystem))
                (VERTEX_SHADER (fragment_position 2 1 0 0)))
   \<and> 0 \<le> cb (texture2D (eco_u_state (LeniaEcosystem_uniforms example_ecosystem))
                (VERTEX_SHADER (fragment_position 2 1 0 0)))
   \<and> 0 \<le> cg (texture2D (eco_u_state (LeniaEcosystem_uniforms example_ecosystem))
                (VERTEX_SHADER (fragment_position 2 1 0 0)))
          * u_benefit (LeniaEcosystem_uniforms example_ecosystem)
          * cb (texture2D (eco_u_state (LeniaEcosystem_uniforms example_ecosystem))
                (VERTEX_SHADER (fragment_position 2 1 0 0))) * 0.3
   \<and> clamp (cb (texture2D (eco_u_state (LeniaEcosystem_uniforms example_ecosystem))
                  (VERTEX_SHADER (fragment_position 2 1 0 0)))
            + growth (vz (eco_potentials (LeniaEcosystem_uniforms example_ecosystem)
                            (VERTEX_SHADER (fragment_position 2 1 0 0))))
                (vz (eco_u_mu (LeniaEcosystem_uniforms example_ecosystem)))
                (vz (eco_u_sigma (LeniaEcosystem_uniforms example_ecosystem)))
                * eco_u_dt (LeniaEcosystem_uniforms example_ecosystem)
                / vz (eco_u_T (LeniaEcosystem_uniforms example_ecosystem))
            - smoothstep 0.5 1.5
                (cr (texture2D (eco_u_state (LeniaEcosystem_uniforms example_ecosystem))
                       (VERTEX_SHADER (fragment_position 2 1 0 0)))
                 + cg (texture2D (eco_u_state (LeniaEcosystem_uniforms example_ecosystem))
                       (VERTEX_SHADER (fragment_position 2 1 0 0)))
                 + cb (texture2D (eco_u_state (LeniaEcosystem_uniforms example_ecosystem))
                       (VERTEX_SHADER (fragment_position 2 1 0 0)))) * 0.1
              * cb (texture2D (eco_u_state (LeniaEcosystem_uniforms example_ecosystem))
                      (VERTEX_SHADER (fragment_position 2 1 0 0)))) 0 1 * 0.9990
       \<le> cb (ECOSYSTEM_SIMULATION_SHADER (LeniaEcosystem_uniforms example_ecosystem)
               (VERTEX_SHADER (fragment_position 2 1 0 0)))"
proof -
  have t: "texture2D (eco_u_state (LeniaEcosystem_uniforms example_ecosystem))
             (VERTEX_SHADER (fragment_position 2 1 0 0)) = vec4 0.5 0.25 0.125 1"
    by (simp add: LeniaEcosystem_uniforms_def example_ecosystem_def
          LeniaEcosystem_constructor_def LeniaEcosystem_createTexture_def buffer_def
          texture2D_def texture_complete_def VERTEX_SHADER_def fragment_position_def
          texel_def wrap_index_def example_eco_field_def vec4_add_def vec4_scale_def Let_def)
  have b: "u_benefit (LeniaEcosystem_uniforms example_ecosystem) = 0.12"
    by (simp add: LeniaEcosystem_uniforms_def example_ecosystem_def
          LeniaEcosystem_constructor_def Let_def)
  have h1: "0 \<le> u_benefit (LeniaEcosystem_uniforms example_ecosystem)"
    unfolding b by simp
  have h2: "0 \<le> cg (texture2D (eco_u_state (LeniaEcosystem_uniforms example_ecosystem))
                (VERTEX_SHADER (fragment_position 2 1 0 0)))"
    unfolding t by simp
  have h3: "0 \<le> cb (texture2D (eco_u_state (LeniaEcosystem_uniforms example_ecosystem))
                (VERTEX_SHADER (fragment_position 2 1 0 0)))"
    unfolding t by simp
  show ?thesis
    using apex_has_no_predation_loss [of "LeniaEcosystem_uniforms example_ecosystem"
        "VERTEX_SHADER (fragment_position 2 1 0 0)" 0] h1 h2 h3
    unfolding Let_def by blast
qed

subsection \<open>Sampling and the single-species update\<close>

lemma half_affine: "(2 * a / w - 1) * 0.5 + 0.5 = a / (w::real)"
proof -
  have "(2 * a / w - 1) * 0.5 + 0.5 = (2 * a / w) * (1 / 2)"
    by (simp add: algebra_simps)
  also have "\<dots> = a / w" by simp
  finally show ?thesis .
qed

lemma vertex_fragment:
  "VERTEX_SHADER (fragment_position W H x y)
     = ((real x + 1 / 2) / real W, (real y + 1 / 2) / real H)"
  unfolding VERTEX_SHADER_def fragment_position_def fst_conv snd_conv half_affine ..

lemma texture2D_texel:
  assumes "texture_complete t" and "0 < tex_width t" and "0 < tex_height t"
  shows "texture2D t ((real_of_int i + 1 / 2) / real (tex_width t),
                      (real_of_int j + 1 / 2) / real (tex_height t)) = texel t i j"
proof -
  have u: "(real_of_int i + 1 / 2) / real (tex_width t) * real (tex_width t) - 1 / 2 = real_of_int i"
    using assms(2) by simp
  have v: "(real_of_int j + 1 / 2) / real (tex_height t) * real (tex_height t) - 1 / 2 = real_of_int j"
    using assms(3) by simp
  show ?thesis
    unfolding texture2D_def Let_def fst_conv snd_conv u v
    using assms(1) by (simp add: vec4_add_def vec4_scale_def)
qed

lemma texture2D_incomplete: "\<not> texture_complete t \<Longrightarrow> texture2D t st = vec4 0 0 0 1"
  by (simp add: texture2D_def)

lemma sample_position:
  assumes "0 < W" and "0 < H"
  shows "(fst (VERTEX_SHADER (fragment_position W H x y)) + real_of_int dx * (1 / real W),
          snd (VERTEX_SHADER (fragment_position W H x y)) + real_of_int dy * (1 / real H))
         = ((real_of_int (int x + dx) + 1 / 2) / real W, (real_of_int (int y + dy) + 1 / 2) / real H)"
  using assms by (simp add: vertex_fragment field_simps)

lemma wrap_index_inside: "x < n \<Longrightarrow> wrap_index w n (int x) = x"
  by (cases w) (simp_all add: wrap_index_def)

lemma texture2D_fragment:
  assumes "texture_wf W H t" and "x < W" and "y < H" and "texture_complete t"
  shows "texture2D t (VERTEX_SHADER (fragment_position W H x y)) = pixels t ! (y * W + x)"
proof -
  have w: "tex_width t = W" "tex_height t = H" "0 < tex_width t" "0 < tex_height t"
    using assms by (simp_all add: texture_wf_def)
  have "texture2D t (VERTEX_SHADER (fragment_position W H x y)) = texel t (int x) (int y)"
    using texture2D_texel [OF assms(4) w(3,4), of "int x" "int y"]
    by (simp add: vertex_fragment w)
  also have "\<dots> = pixels t ! (y * W + x)"
    using assms(2,3) by (simp add: texel_def w wrap_index_inside)
  finally show ?thesis .
qed







subsection \<open>The convolution loops as sums\<close>

lemma sim_loop_body_eq:
  "sim_loop_body u tc off acc =
     (fst acc + cr (sim_sample (u_state u) (u_resolution u) tc off) * disc_weight (u_R u) off,
      snd acc + disc_weight (u_R u) off)"
  by (simp add: sim_loop_body_def Let_def disc_weight_def offset_dist_def sim_sample_def
        not_less [symmetric])

lemma fold_sim_loop:
  "fold (sim_loop_body u tc) xs acc =
     (fst acc + (\<Sum>off\<leftarrow>xs. cr (sim_sample (u_state u) (u_resolution u) tc off)
                              * disc_weight (u_R u) off),
      snd acc + (\<Sum>off\<leftarrow>xs. disc_weight (u_R u) off))"
proof (induction xs arbitrary: acc)
  case Nil
  then show ?case by simp
next
  case (Cons x xs)
  show ?case
    unfolding fold_simps Cons.IH sim_loop_body_eq [of u tc x acc]
    by (simp add: algebra_simps)
qed

lemma offset_dist_small:
  assumes "offset_dist off < 1 / 2"
  shows "offset_dist off = 0"
proof -
  define q where "q = snd off * snd off + fst off * fst off"
  have d: "offset_dist off = sqrt (real_of_int q)"
    by (simp add: offset_dist_def q_def)
  have "0 \<le> q" by (simp add: q_def)
  have "sqrt (real_of_int q) < 1"
    using assms unfolding d by linarith
  then have "real_of_int q < 1"
    by (simp only: real_sqrt_lt_1_iff)
  then have "q < 1" by simp
  with \<open>0 \<le> q\<close> have "q = 0" by simp
  then show ?thesis using d by simp
qed

lemma kernel_w_0: "kernel_w 0 = 0"
  by (simp add: kernel_w_def)

lemma eco_weight_eq:
  "(if offset_dist off < 0.5 then 0
    else if offset_dist off \<le> Rr then kernel_w (offset_dist off / Rr) else 0)
   = disc_weight Rr off"
proof (cases "offset_dist off < 1 / 2")
  case True
  then have "offset_dist off = 0" by (rule offset_dist_small)
  then show ?thesis using True by (simp add: disc_weight_def kernel_w_0)
next
  case False
  then show ?thesis by (simp add: disc_weight_def)
qed


lemma set_offsets: "set (offsets n) = {- n..n} \<times> {- n..n}"
  by (simp add: offsets_def)

lemma distinct_offsets: "distinct (offsets n)"
  by (simp add: offsets_def distinct_product)

lemma offset_dist_ge:
  "\<bar>real_of_int (fst off)\<bar> \<le> offset_dist off" "\<bar>real_of_int (snd off)\<bar> \<le> offset_dist off"
proof -
  have "\<bar>real_of_int (fst off)\<bar> = sqrt (real_of_int (fst off) * real_of_int (fst off))"
    by simp
  also have "\<dots> \<le> offset_dist off"
    unfolding offset_dist_def by (rule real_sqrt_le_mono) simp
  finally show "\<bar>real_of_int (fst off)\<bar> \<le> offset_dist off" .
  have "\<bar>real_of_int (snd off)\<bar> = sqrt (real_of_int (snd off) * real_of_int (snd off))"
    by simp
  also have "\<dots> \<le> offset_dist off"
    unfolding offset_dist_def by (rule real_sqrt_le_mono) simp
  finally show "\<bar>real_of_int (snd off)\<bar> \<le> offset_dist off" .
qed

lemma disc_weight_outside:
  assumes "Rr \<le> real_of_int n" and "off \<notin> {- n..n} \<times> {- n..n}"
  shows "disc_weight Rr off = 0"
proof -
  have "n < \<bar>fst off\<bar> \<or> n < \<bar>snd off\<bar>"
    using assms(2) by (cases off) auto
  then have "real_of_int n < \<bar>real_of_int (fst off)\<bar> \<or> real_of_int n < \<bar>real_of_int (snd off)\<bar>"
    by (metis of_int_abs of_int_less_iff)
  then have "real_of_int n < offset_dist off"
    using offset_dist_ge [of off] by linarith
  then show ?thesis using assms(1) by (simp add: disc_weight_def)
qed

lemma sum_offsets_restrict:
  assumes "Rr \<le> real_of_int n" and "n \<le> m"
  shows "(\<Sum>off\<leftarrow>offsets m. f off * disc_weight Rr off)
         = (\<Sum>off\<leftarrow>offsets n. f off * disc_weight Rr off)"
proof -
  have sub: "{- n..n} \<times> {- n..n} \<subseteq> {- m..m} \<times> {- m..m}"
    using assms(2) by auto
  have "(\<Sum>off\<leftarrow>offsets m. f off * disc_weight Rr off)
          = (\<Sum>off\<in>{- m..m} \<times> {- m..m}. f off * disc_weight Rr off)"
    using distinct_offsets [of m] by (simp add: sum_list_distinct_conv_sum_set set_offsets)
  also have "\<dots> = (\<Sum>off\<in>{- n..n} \<times> {- n..n}. f off * disc_weight Rr off)"
  proof (rule sum.mono_neutral_right)
    show "finite ({- m..m} \<times> {- m..m} :: (int \<times> int) set)" by simp
    show "{- n..n} \<times> {- n..n} \<subseteq> {- m..m} \<times> {- m..m}" by (rule sub)
    show "\<forall>off\<in>{- m..m} \<times> {- m..m} - {- n..n} \<times> {- n..n}. f off * disc_weight Rr off = 0"
      using disc_weight_outside [OF assms(1)] by simp
  qed
  also have "\<dots> = (\<Sum>off\<leftarrow>offsets n. f off * disc_weight Rr off)"
    using distinct_offsets [of n] by (simp add: sum_list_distinct_conv_sum_set set_offsets)
  finally show ?thesis .
qed

lemma sim_potential_sum:
  "sim_potential u tc =
     (\<Sum>off\<leftarrow>offsets 12. cr (sim_sample (u_state u) (u_resolution u) tc off)
                             * disc_weight (u_R u) off)
     / max (\<Sum>off\<leftarrow>offsets 12. disc_weight (u_R u) off) 0.001"
  by (simp add: sim_potential_def fold_sim_loop Let_def)

lemma sum_disc_offsets:
  "(\<Sum>off\<leftarrow>disc_offsets Rr. kernel_w (offset_dist off / Rr) * f off)
     = (\<Sum>off\<leftarrow>offsets \<lceil>Rr\<rceil>. f off * disc_weight Rr off)"
proof -
  have "\<And>xs. (\<Sum>off\<leftarrow>filter (\<lambda>off. offset_dist off \<le> Rr) xs.
                 kernel_w (offset_dist off / Rr) * f off)
              = (\<Sum>off\<leftarrow>xs. f off * disc_weight Rr off)"
  proof -
    fix xs show "(\<Sum>off\<leftarrow>filter (\<lambda>off. offset_dist off \<le> Rr) xs.
                 kernel_w (offset_dist off / Rr) * f off)
              = (\<Sum>off\<leftarrow>xs. f off * disc_weight Rr off)"
      by (induction xs) (simp_all add: disc_weight_def)
  qed
  then show ?thesis by (simp add: disc_offsets_def)
qed

lemma spec_potential_sum:
  "spec_potential u tc =
     (\<Sum>off\<leftarrow>offsets \<lceil>u_R u\<rceil>. cr (sim_sample (u_state u) (u_resolution u) tc off)
                             * disc_weight (u_R u) off)
     / max (\<Sum>off\<leftarrow>offsets \<lceil>u_R u\<rceil>. 1 * disc_weight (u_R u) off) 0.001"
  unfolding spec_potential_def
  using sum_disc_offsets [of "u_R u" "\<lambda>off. cr (sim_sample (u_state u) (u_resolution u) tc off)"]
        sum_disc_offsets [of "u_R u" "\<lambda>off. 1"]
  by simp

text \<open>Up to radius 12 the shader's potential is the disc average of the specification.\<close>

lemma sim_potential_disc:
  assumes "u_R u \<le> 12"
  shows "sim_potential u tc = spec_potential u tc"
proof -
  have c: "u_R u \<le> real_of_int \<lceil>u_R u\<rceil>" by (rule le_of_int_ceiling)
  have n: "\<lceil>u_R u\<rceil> \<le> 12" using assms by (simp add: ceiling_le_iff)
  have a: "(\<Sum>off\<leftarrow>offsets 12. cr (sim_sample (u_state u) (u_resolution u) tc off)
                             * disc_weight (u_R u) off)
         = (\<Sum>off\<leftarrow>offsets \<lceil>u_R u\<rceil>. cr (sim_sample (u_state u) (u_resolution u) tc off)
                             * disc_weight (u_R u) off)"
    using c n by (rule sum_offsets_restrict)
  have b: "(\<Sum>off\<leftarrow>offsets 12. 1 * disc_weight (u_R u) off)
         = (\<Sum>off\<leftarrow>offsets \<lceil>u_R u\<rceil>. 1 * disc_weight (u_R u) off)"
    using c n by (rule sum_offsets_restrict)
  show ?thesis
    unfolding sim_potential_sum spec_potential_sum a using b by simp
qed


lemma sim_sample_texel:
  assumes "texture_complete t" and "0 < tex_width t" and "0 < tex_height t"
  shows "sim_sample t (real (tex_width t), real (tex_height t))
           (VERTEX_SHADER (fragment_position (tex_width t) (tex_height t) x y)) off
         = texel t (int x + snd off) (int y + fst off)"
  unfolding sim_sample_def fst_conv snd_conv sample_position [OF assms(2,3)]
  using assms by (rule texture2D_texel)

lemma wide_state:
  "u_state wide_uniforms = (Lenia_createTexture 32 1)\<lparr>pixels := wide_field\<rparr>"
  "u_resolution wide_uniforms = (real 32, real 1)"
  "u_R wide_uniforms = 20"
  by (simp_all add: wide_uniforms_def Lenia_uniforms_def Lenia_constructor_def buffer_def)

lemma wide_field_nth: "k < 32 \<Longrightarrow> wide_field ! k = (if k = 13 then vec4 1 1 1 1 else vec4 0 0 0 1)"
  unfolding wide_field_def by (simp del: upt_Suc)

lemma wide_sample:
  "sim_sample (u_state wide_uniforms) (u_resolution wide_uniforms)
     (VERTEX_SHADER (fragment_position 32 1 0 0)) off
   = (if snd off mod 32 = 13 then vec4 1 1 1 1 else vec4 0 0 0 1)"
proof -
  define t where "t = (Lenia_createTexture 32 1)\<lparr>pixels := wide_field\<rparr>"
  have d: "tex_width t = 32" "tex_height t = 1" "0 < tex_width t" "0 < tex_height t"
    by (simp_all add: t_def Lenia_createTexture_def)
  have tc: "texture_complete t"
    by (simp add: texture_complete_def is_power_of_two_def d)
  have ws: "u_state wide_uniforms = t"
      "u_resolution wide_uniforms = (real (tex_width t), real (tex_height t))"
    by (simp_all add: wide_state t_def Lenia_createTexture_def)
  have "sim_sample t (real (tex_width t), real (tex_height t))
           (VERTEX_SHADER (fragment_position (tex_width t) (tex_height t) 0 0)) off
         = texel t (int 0 + snd off) (int 0 + fst off)"
    using tc d(3,4) by (rule sim_sample_texel)
  then have "sim_sample (u_state wide_uniforms) (u_resolution wide_uniforms)
     (VERTEX_SHADER (fragment_position 32 1 0 0)) off = texel t (snd off) (fst off)"
    unfolding ws by (simp add: d(1,2))
  also have "\<dots> = wide_field ! nat (snd off mod 32)"
    by (simp add: texel_def wrap_index_def t_def Lenia_createTexture_def)
  also have "\<dots> = (if snd off mod 32 = 13 then vec4 1 1 1 1 else vec4 0 0 0 1)"
  proof -
    have "nat (snd off mod 32) < 32" by simp
    moreover have "nat (snd off mod 32) = 13 \<longleftrightarrow> snd off mod 32 = 13" by auto
    ultimately show ?thesis by (simp add: wide_field_nth)
  qed
  finally show ?thesis .
qed

lemma kernel_w_nonneg: "0 \<le> kernel_w r"
  unfolding kernel_w_def Let_def by (rule zero_le_square)

lemma disc_weight_nonneg: "0 \<le> disc_weight Rr off"
  by (simp add: disc_weight_def kernel_w_nonneg)

lemma sum_list_ge_member:
  fixes f :: "'a \<Rightarrow> real"
  assumes "\<And>x. 0 \<le> f x" and "a \<in> set xs"
  shows "f a \<le> (\<Sum>x\<leftarrow>xs. f x)"
  using assms(2)
proof (induction xs)
  case Nil
  then show ?case by simp
next
  case (Cons x xs)
  have "0 \<le> (\<Sum>x\<leftarrow>xs. f x)" by (rule sum_list_nonneg) (auto simp: assms(1))
  with Cons assms(1) [of x] show ?case by auto
qed

lemma offset_dist_axis: "offset_dist (0, d) = \<bar>real_of_int d\<bar>"
  by (simp add: offset_dist_def)


text \<open>
  C5 (for every radius up to 20, the potential is the kernel-weighted average over
  exactly the offsets within distance R): the shader's loops stop at 12, so for R = 20
  the offset \<open>(13, 0)\<close>, at distance 13, is never read. On the field whose only
  non-empty pixel is 13 to the right of pixel 0 the shader's potential at pixel 0 is 0,
  while the average over the whole disc is positive. Up to R = 12 the two agree
  (\<open>sim_potential_disc\<close>).
\<close>

theorem potential_truncated_at_radius_20:
  "u_R wide_uniforms = 20
   \<and> sim_potential wide_uniforms (VERTEX_SHADER (fragment_position 32 1 0 0)) = 0
   \<and> 0 < spec_potential wide_uniforms (VERTEX_SHADER (fragment_position 32 1 0 0))"
proof -
  define tc where "tc = VERTEX_SHADER (fragment_position 32 1 0 0)"
  define smp where "smp off = cr (sim_sample (u_state wide_uniforms)
                                     (u_resolution wide_uniforms) tc off)" for off
  have smp: "\<And>off. smp off = (if snd off mod 32 = 13 then 1 else 0)"
    unfolding smp_def tc_def wide_sample by simp
  have zero: "\<And>off. off \<in> set (offsets 12) \<Longrightarrow> smp off = 0"
  proof -
    fix off :: "int \<times> int" assume "off \<in> set (offsets 12)"
    then have "- 12 \<le> snd off" "snd off \<le> 12"
      by (auto simp: set_offsets)
    then have "snd off mod 32 \<noteq> 13" by presburger
    then show "smp off = 0" by (simp add: smp)
  qed
  have "(\<Sum>off\<leftarrow>offsets 12. smp off * disc_weight 20 off) = (\<Sum>off\<leftarrow>offsets 12. 0)"
    by (rule arg_cong [where f = sum_list], rule map_cong) (simp_all add: zero)
  then have z: "(\<Sum>off\<leftarrow>offsets 12. smp off * disc_weight 20 off) = 0"
    by simp
  have s0: "sim_potential wide_uniforms tc = 0"
    unfolding sim_potential_sum wide_state(3) smp_def [symmetric] z by simp
  have m: "(0, 13) \<in> set (offsets \<lceil>20 :: real\<rceil>)"
    by (simp add: set_offsets)
  have w: "disc_weight 20 (0, 13) = 8281 / 10000"
    by (simp add: disc_weight_def offset_dist_axis kernel_w_def Let_def)
  have nn: "\<And>off. 0 \<le> smp off * disc_weight 20 off"
    by (simp add: smp disc_weight_nonneg)
  have "smp (0, 13) * disc_weight 20 (0, 13)
          \<le> (\<Sum>off\<leftarrow>offsets \<lceil>20 :: real\<rceil>. smp off * disc_weight 20 off)"
    using nn m by (rule sum_list_ge_member)
  then have num: "0 < (\<Sum>off\<leftarrow>offsets \<lceil>20 :: real\<rceil>. smp off * disc_weight 20 off)"
    by (simp add: smp w)
  have den: "0 < max (\<Sum>off\<leftarrow>offsets \<lceil>20 :: real\<rceil>. 1 * disc_weight 20 off) 0.001"
    by simp
  have "0 < spec_potential wide_uniforms tc"
    unfolding spec_potential_sum wide_state(3) smp_def [symmetric]
    using num den by (rule divide_pos_pos)
  with s0 show ?thesis by (simp add: tc_def wide_state(3))
qed

subsection \<open>The ecosystem step and the single-species step\<close>

lemma disc_weight_centre:
  assumes "offset_dist off < 1 / 2"
  shows "disc_weight Rr off = 0"
proof -
  have "offset_dist off = 0" using assms by (rule offset_dist_small)
  then show ?thesis by (simp add: disc_weight_def kernel_w_0)
qed

lemma eco_loop_body_eq:
  "eco_loop_body u tc off acc =
     (let n = sim_sample (eco_u_state u) (eco_u_resolution u) tc off
      in (vec3 (vx (fst acc) + cr n * disc_weight (vx (eco_u_R u)) off)
               (vy (fst acc) + cg n * disc_weight (vy (eco_u_R u)) off)
               (vz (fst acc) + cb n * disc_weight (vz (eco_u_R u)) off),
          vec3 (vx (snd acc) + disc_weight (vx (eco_u_R u)) off)
               (vy (snd acc) + disc_weight (vy (eco_u_R u)) off)
               (vz (snd acc) + disc_weight (vz (eco_u_R u)) off)))"
proof (cases "offset_dist off < 1 / 2")
  case True
  have "eco_loop_body u tc off acc = acc"
    using True by (simp add: eco_loop_body_def Let_def offset_dist_def)
  then show ?thesis
    by (simp add: disc_weight_centre [OF True] Let_def prod_eq_iff)
next
  case False
  then have f: "\<not> sqrt (real_of_int (snd off) * real_of_int (snd off)
                    + real_of_int (fst off) * real_of_int (fst off)) < 1 / 2"
    by (simp add: offset_dist_def)
  show ?thesis
    unfolding eco_loop_body_def Let_def disc_weight_def offset_dist_def sim_sample_def
    using f by simp
qed


lemma fold_eco_loop:
  "fold (eco_loop_body u tc) xs acc =
     (vec3 (vx (fst acc) + (\<Sum>off\<leftarrow>xs. cr (sim_sample (eco_u_state u) (eco_u_resolution u) tc off)
                                      * disc_weight (vx (eco_u_R u)) off))
           (vy (fst acc) + (\<Sum>off\<leftarrow>xs. cg (sim_sample (eco_u_state u) (eco_u_resolution u) tc off)
                                      * disc_weight (vy (eco_u_R u)) off))
           (vz (fst acc) + (\<Sum>off\<leftarrow>xs. cb (sim_sample (eco_u_state u) (eco_u_resolution u) tc off)
                                      * disc_weight (vz (eco_u_R u)) off)),
      vec3 (vx (snd acc) + (\<Sum>off\<leftarrow>xs. 1 * disc_weight (vx (eco_u_R u)) off))
           (vy (snd acc) + (\<Sum>off\<leftarrow>xs. 1 * disc_weight (vy (eco_u_R u)) off))
           (vz (snd acc) + (\<Sum>off\<leftarrow>xs. 1 * disc_weight (vz (eco_u_R u)) off)))"
proof (induction xs arbitrary: acc)
  case Nil
  then show ?case by (simp add: prod_eq_iff)
next
  case (Cons x xs)
  show ?case
    unfolding fold_simps Cons.IH eco_loop_body_eq [of u tc x acc] Let_def
    by (simp add: algebra_simps)
qed

lemma eco_potentials_sum:
  "eco_potentials u tc =
     vec3 ((\<Sum>off\<leftarrow>offsets 15. cr (sim_sample (eco_u_state u) (eco_u_resolution u) tc off)
                                 * disc_weight (vx (eco_u_R u)) off)
           / max (\<Sum>off\<leftarrow>offsets 15. 1 * disc_weight (vx (eco_u_R u)) off) 0.001)
          ((\<Sum>off\<leftarrow>offsets 15. cg (sim_sample (eco_u_state u) (eco_u_resolution u) tc off)
                                 * disc_weight (vy (eco_u_R u)) off)
           / max (\<Sum>off\<leftarrow>offsets 15. 1 * disc_weight (vy (eco_u_R u)) off) 0.001)
          ((\<Sum>off\<leftarrow>offsets 15. cb (sim_sample (eco_u_state u) (eco_u_resolution u) tc off)
                                 * disc_weight (vz (eco_u_R u)) off)
           / max (\<Sum>off\<leftarrow>offsets 15. 1 * disc_weight (vz (eco_u_R u)) off) 0.001)"
  unfolding eco_potentials_def fold_eco_loop Let_def by simp

lemma wrap_index_less:
  assumes "0 < n"
  shows "wrap_index w n i < n"
proof (cases w)
  case REPEAT
  have "0 \<le> i mod int n" "i mod int n < int n"
    using assms by simp_all
  then have "nat (i mod int n) < n" by linarith
  then show ?thesis by (simp add: wrap_index_def REPEAT)
next
  case CLAMP_TO_EDGE
  have "max 0 (min (int n - 1) i) < int n"
    using assms by simp
  then have "nat (max 0 (min (int n - 1) i)) < n" by linarith
  then show ?thesis by (simp add: wrap_index_def CLAMP_TO_EDGE)
qed

lemma texel_channel:
  assumes "texture_wf W H t" and "0 < W" and "0 < H"
  shows "texel (channel_texture sel t) i j
         = vec4 (sel (texel t i j)) (sel (texel t i j)) (sel (texel t i j)) 1"
proof -
  define a where "a = wrap_index (TEXTURE_WRAP_S t) (tex_width t) i"
  define b where "b = wrap_index (TEXTURE_WRAP_T t) (tex_height t) j"
  have w: "tex_width t = W" "tex_height t = H" "length (pixels t) = W * H"
    using assms(1) by (simp_all add: texture_wf_def)
  have "a < W" "b < H"
    using assms(2,3) by (simp_all add: a_def b_def w wrap_index_less)
  have "b * W + a < b * W + W" using \<open>a < W\<close> by simp
  also have "\<dots> = (b + 1) * W" by simp
  also have "\<dots> \<le> H * W" using \<open>b < H\<close> by (intro mult_le_mono1) simp
  finally have "b * W + a < length (pixels t)" by (simp add: w mult.commute)
  then show ?thesis
    by (simp add: texel_def channel_texture_def a_def b_def w)
qed

lemma texture2D_channel:
  assumes "texture_wf W H t" and "0 < W" and "0 < H"
      and "\<And>p q. sel (vec4_add p q) = sel p + sel q"
      and "\<And>k p. sel (vec4_scale k p) = k * sel p"
      and "sel (vec4 0 0 0 1) = 0"
  shows "cr (texture2D (channel_texture sel t) st) = sel (texture2D t st)"
proof -
  have d: "tex_width (channel_texture sel t) = tex_width t"
      "tex_height (channel_texture sel t) = tex_height t"
      "texture_complete (channel_texture sel t) = texture_complete t"
    by (simp_all add: channel_texture_def texture_complete_def)
  show ?thesis
  proof (cases "texture_complete t")
    case True
    then have c: "texture_complete (channel_texture sel t)" by (simp add: d)
    show ?thesis
      unfolding texture2D_def if_P [OF c] if_P [OF True] Let_def d(1,2)
        texel_channel [OF assms(1-3)] assms(4,5)
      by (simp add: vec4_add_def vec4_scale_def)
  next
    case False
    then show ?thesis
      by (simp add: texture2D_def d assms(6))
  qed
qed

lemma channel_linear:
  "cr (vec4_add p q) = cr p + cr q" "cr (vec4_scale k p) = k * cr p"
  "cg (vec4_add p q) = cg p + cg q" "cg (vec4_scale k p) = k * cg p"
  "cb (vec4_add p q) = cb p + cb q" "cb (vec4_scale k p) = k * cb p"
  by (simp_all add: vec4_add_def vec4_scale_def)


lemma sim_sample_channel:
  assumes "texture_wf W H t" and "0 < W" and "0 < H"
  shows "cr (sim_sample (channel_texture cr t) res tc off) = cr (sim_sample t res tc off)"
    and "cr (sim_sample (channel_texture cg t) res tc off) = cg (sim_sample t res tc off)"
    and "cr (sim_sample (channel_texture cb t) res tc off) = cb (sim_sample t res tc off)"
  unfolding sim_sample_def
  by (rule texture2D_channel [OF assms]; simp add: channel_linear)+

lemma channel_potential:
  assumes "texture_wf W H (eco_u_state u)" and "0 < W" and "0 < H"
      and "part (eco_u_R u) \<le> 12"
      and "\<And>res tc off. cr (sim_sample (channel_texture sel (eco_u_state u)) res tc off)
                          = sel (sim_sample (eco_u_state u) res tc off)"
  shows "sim_potential (channel_uniforms u sel part) tc =
           (\<Sum>off\<leftarrow>offsets 15. sel (sim_sample (eco_u_state u) (eco_u_resolution u) tc off)
                                   * disc_weight (part (eco_u_R u)) off)
           / max (\<Sum>off\<leftarrow>offsets 15. 1 * disc_weight (part (eco_u_R u)) off) 0.001"
proof -
  have r: "part (eco_u_R u) \<le> real_of_int 12" using assms(4) by simp
  have n: "(12 :: int) \<le> 15" by simp
  have a: "(\<Sum>off\<leftarrow>offsets 15. sel (sim_sample (eco_u_state u) (eco_u_resolution u) tc off)
                                   * disc_weight (part (eco_u_R u)) off)
         = (\<Sum>off\<leftarrow>offsets 12. sel (sim_sample (eco_u_state u) (eco_u_resolution u) tc off)
                                   * disc_weight (part (eco_u_R u)) off)"
    using r n by (rule sum_offsets_restrict)
  have b: "(\<Sum>off\<leftarrow>offsets 15. 1 * disc_weight (part (eco_u_R u)) off)
         = (\<Sum>off\<leftarrow>offsets 12. 1 * disc_weight (part (eco_u_R u)) off)"
    using r n by (rule sum_offsets_restrict)
  show ?thesis
    unfolding sim_potential_sum a b
    by (simp add: channel_uniforms_def assms(5))
qed

lemma eco_potentials_channels:
  assumes "texture_wf W H (eco_u_state u)" and "0 < W" and "0 < H"
  shows "vx (eco_u_R u) \<le> 12 \<Longrightarrow>
           vx (eco_potentials u tc) = sim_potential (channel_uniforms u cr vx) tc"
    and "vy (eco_u_R u) \<le> 12 \<Longrightarrow>
           vy (eco_potentials u tc) = sim_potential (channel_uniforms u cg vy) tc"
    and "vz (eco_u_R u) \<le> 12 \<Longrightarrow>
           vz (eco_potentials u tc) = sim_potential (channel_uniforms u cb vz) tc"
proof -
  show "vx (eco_u_R u) \<le> 12 \<Longrightarrow>
           vx (eco_potentials u tc) = sim_potential (channel_uniforms u cr vx) tc"
    using channel_potential [OF assms, of vx cr tc] sim_sample_channel(1) [OF assms]
    by (simp add: eco_potentials_sum)
  show "vy (eco_u_R u) \<le> 12 \<Longrightarrow>
           vy (eco_potentials u tc) = sim_potential (channel_uniforms u cg vy) tc"
    using channel_potential [OF assms, of vy cg tc] sim_sample_channel(2) [OF assms]
    by (simp add: eco_potentials_sum)
  show "vz (eco_u_R u) \<le> 12 \<Longrightarrow>
           vz (eco_potentials u tc) = sim_potential (channel_uniforms u cb vz) tc"
    using channel_potential [OF assms, of vz cb tc] sim_sample_channel(3) [OF assms]
    by (simp add: eco_potentials_sum)
qed

lemma growth_bounds: "- 1 < growth x m sg \<and> growth x m sg \<le> 1"
proof -
  have "0 \<le> ((x - m) / sg) * ((x - m) / sg)" by simp
  then have "exp (- ((x - m) / sg) * ((x - m) / sg) / 2) \<le> 1" by simp
  then show ?thesis by (simp add: growth_def Let_def)
qed

lemma smoothstep_above: "3 / 2 \<le> x \<Longrightarrow> smoothstep (1 / 2) (3 / 2) x = 1"
  by (simp add: smoothstep_def clamp_def Let_def)

lemma eco_shader_channels:
  assumes "u_predation u = 0" and "u_benefit u = 0"
  shows "cr (ECOSYSTEM_SIMULATION_SHADER u tc) =
           clamp (cr (texture2D (eco_u_state u) tc)
                  + growth (vx (eco_potentials u tc)) (vx (eco_u_mu u)) (vx (eco_u_sigma u))
                      * eco_u_dt u / vx (eco_u_T u)
                  - smoothstep 0.5 1.5 (cr (texture2D (eco_u_state u) tc)
                        + cg (texture2D (eco_u_state u) tc) + cb (texture2D (eco_u_state u) tc))
                      * 0.1 * cr (texture2D (eco_u_state u) tc)) 0 1 * 0.9995"
    and "cg (ECOSYSTEM_SIMULATION_SHADER u tc) =
           clamp (cg (texture2D (eco_u_state u) tc)
                  + growth (vy (eco_potentials u tc)) (vy (eco_u_mu u)) (vy (eco_u_sigma u))
                      * eco_u_dt u / vy (eco_u_T u)
                  - smoothstep 0.5 1.5 (cr (texture2D (eco_u_state u) tc)
                        + cg (texture2D (eco_u_state u) tc) + cb (texture2D (eco_u_state u) tc))
                      * 0.1 * cg (texture2D (eco_u_state u) tc)) 0 1 * 0.9993"
    and "cb (ECOSYSTEM_SIMULATION_SHADER u tc) =
           clamp (cb (texture2D (eco_u_state u) tc)
                  + growth (vz (eco_potentials u tc)) (vz (eco_u_mu u)) (vz (eco_u_sigma u))
                      * eco_u_dt u / vz (eco_u_T u)
                  - smoothstep 0.5 1.5 (cr (texture2D (eco_u_state u) tc)
                        + cg (texture2D (eco_u_state u) tc) + cb (texture2D (eco_u_state u) tc))
                      * 0.1 * cb (texture2D (eco_u_state u) tc)) 0 1 * 0.9990"
  using assms by (simp_all add: ECOSYSTEM_SIMULATION_SHADER_def Let_def)

lemma sim_shader_channel:
  assumes "texture_wf W H (eco_u_state u)" and "0 < W" and "0 < H"
      and "\<And>p q. sel (vec4_add p q) = sel p + sel q"
      and "\<And>k p. sel (vec4_scale k p) = k * sel p"
      and "sel (vec4 0 0 0 1) = 0"
  shows "cr (SIMULATION_SHADER (channel_uniforms u sel part) tc) =
           clamp (sel (texture2D (eco_u_state u) tc)
                  + growth (sim_potential (channel_uniforms u sel part) tc)
                      (part (eco_u_mu u)) (part (eco_u_sigma u))
                      * eco_u_dt u / part (eco_u_T u)) 0 1"
proof -
  have "cr (texture2D (u_state (channel_uniforms u sel part)) tc)
          = sel (texture2D (eco_u_state u) tc)"
    using texture2D_channel [OF assms] by (simp add: channel_uniforms_def)
  then show ?thesis
    by (simp add: SIMULATION_SHADER_def Let_def) (simp add: channel_uniforms_def)
qed


text \<open>
  C2, amended: with predation strength 0 and benefit strength 0 the predation and benefit
  terms vanish, but the ecosystem step is not three independent single-species steps. On
  a well-formed field, every channel whose kernel radius is at most 12 gets
  \<open>clamp (cur + G * dt / T - crowding * cur, 0, 1) * decay\<close>, where \<open>G\<close> is the growth term
  that \<^verbatim>\<open>SIMULATION_SHADER\<close> computes when it is run on that channel of the ecosystem's own
  state texture (sampled with that texture's wrap mode, which is \<open>CLAMP_TO_EDGE\<close> for the
  ecosystem and not the \<open>REPEAT\<close> of the single-species engine) with that channel's R, T,
  mu, sigma and the ecosystem's time step,
  \<open>crowding = 0.1 * smoothstep (0.5, 1.5, total density of the three channels)\<close> is the
  cross-channel term that remains, and \<open>decay\<close> is 0.9995, 0.9993, 0.9990. At a pixel
  whose total density is at most 0.5 the new value of such a channel is the output of
  that run of \<^verbatim>\<open>SIMULATION_SHADER\<close> (trail disabled) times \<open>decay\<close>.
\<close>

theorem ecosystem_without_interaction:
  assumes "u_predation u = 0" and "u_benefit u = 0"
      and "texture_wf W H (eco_u_state u)" and "0 < W" and "0 < H"
  shows
    "(let c = texture2D (eco_u_state u) tc;
          crowding = smoothstep 0.5 1.5 (cr c + cg c + cb c) * 0.1;
          prey_u = channel_uniforms u cr vx;
          pred_u = channel_uniforms u cg vy;
          apex_u = channel_uniforms u cb vz
      in (vx (eco_u_R u) \<le> 12 \<longrightarrow>
            cr (ECOSYSTEM_SIMULATION_SHADER u tc) =
              clamp (cr c + growth (sim_potential prey_u tc) (u_mu prey_u) (u_sigma prey_u)
                              * u_dt prey_u / u_T prey_u
                     - crowding * cr c) 0 1 * 0.9995)
       \<and> (vy (eco_u_R u) \<le> 12 \<longrightarrow>
            cg (ECOSYSTEM_SIMULATION_SHADER u tc) =
              clamp (cg c + growth (sim_potential pred_u tc) (u_mu pred_u) (u_sigma pred_u)
                              * u_dt pred_u / u_T pred_u
                     - crowding * cg c) 0 1 * 0.9993)
       \<and> (vz (eco_u_R u) \<le> 12 \<longrightarrow>
            cb (ECOSYSTEM_SIMULATION_SHADER u tc) =
              clamp (cb c + growth (sim_potential apex_u tc) (u_mu apex_u) (u_sigma apex_u)
                              * u_dt apex_u / u_T apex_u
                     - crowding * cb c) 0 1 * 0.9990)
       \<and> (cr c + cg c + cb c \<le> 0.5 \<longrightarrow>
            (vx (eco_u_R u) \<le> 12 \<longrightarrow>
               cr (ECOSYSTEM_SIMULATION_SHADER u tc) = cr (SIMULATION_SHADER prey_u tc) * 0.9995)
          \<and> (vy (eco_u_R u) \<le> 12 \<longrightarrow>
               cg (ECOSYSTEM_SIMULATION_SHADER u tc) = cr (SIMULATION_SHADER pred_u tc) * 0.9993)
          \<and> (vz (eco_u_R u) \<le> 12 \<longrightarrow>
               cb (ECOSYSTEM_SIMULATION_SHADER u tc) = cr (SIMULATION_SHADER apex_u tc) * 0.9990)))"
proof -
  note pot = eco_potentials_channels [OF assms(3-5), of tc]
  note eco = eco_shader_channels [OF assms(1,2), of tc]
  have sr: "cr (SIMULATION_SHADER (channel_uniforms u cr vx) tc) =
           clamp (cr (texture2D (eco_u_state u) tc)
                  + growth (sim_potential (channel_uniforms u cr vx) tc)
                      (vx (eco_u_mu u)) (vx (eco_u_sigma u))
                      * eco_u_dt u / vx (eco_u_T u)) 0 1"
    by (rule sim_shader_channel [OF assms(3-5)]) (simp_all add: channel_linear)
  have sg: "cr (SIMULATION_SHADER (channel_uniforms u cg vy) tc) =
           clamp (cg (texture2D (eco_u_state u) tc)
                  + growth (sim_potential (channel_uniforms u cg vy) tc)
                      (vy (eco_u_mu u)) (vy (eco_u_sigma u))
                      * eco_u_dt u / vy (eco_u_T u)) 0 1"
    by (rule sim_shader_channel [OF assms(3-5)]) (simp_all add: channel_linear)
  have sb: "cr (SIMULATION_SHADER (channel_uniforms u cb vz) tc) =
           clamp (cb (texture2D (eco_u_state u) tc)
                  + growth (sim_potential (channel_uniforms u cb vz) tc)
                      (vz (eco_u_mu u)) (vz (eco_u_sigma u))
                      * eco_u_dt u / vz (eco_u_T u)) 0 1"
    by (rule sim_shader_channel [OF assms(3-5)]) (simp_all add: channel_linear)
  have f: "u_mu (channel_uniforms u sel part) = part (eco_u_mu u)"
      "u_sigma (channel_uniforms u sel part) = part (eco_u_sigma u)"
      "u_T (channel_uniforms u sel part) = part (eco_u_T u)"
      "u_dt (channel_uniforms u sel part) = eco_u_dt u" for sel part
    by (simp_all add: channel_uniforms_def)
  define c where "c = texture2D (eco_u_state u) tc"
  define crowding where "crowding = smoothstep 0.5 1.5 (cr c + cg c + cb c) * 0.1"
  have a1: "cr (ECOSYSTEM_SIMULATION_SHADER u tc) =
              clamp (cr c + growth (sim_potential (channel_uniforms u cr vx) tc)
                              (vx (eco_u_mu u)) (vx (eco_u_sigma u))
                              * eco_u_dt u / vx (eco_u_T u)
                     - crowding * cr c) 0 1 * 0.9995" if "vx (eco_u_R u) \<le> 12"
    unfolding eco(1) pot(1) [OF that] by (simp add: c_def crowding_def)
  have a2: "cg (ECOSYSTEM_SIMULATION_SHADER u tc) =
              clamp (cg c + growth (sim_potential (channel_uniforms u cg vy) tc)
                              (vy (eco_u_mu u)) (vy (eco_u_sigma u))
                              * eco_u_dt u / vy (eco_u_T u)
                     - crowding * cg c) 0 1 * 0.9993" if "vy (eco_u_R u) \<le> 12"
    unfolding eco(2) pot(2) [OF that] by (simp add: c_def crowding_def)
  have a3: "cb (ECOSYSTEM_SIMULATION_SHADER u tc) =
              clamp (cb c + growth (sim_potential (channel_uniforms u cb vz) tc)
                              (vz (eco_u_mu u)) (vz (eco_u_sigma u))
                              * eco_u_dt u / vz (eco_u_T u)
                     - crowding * cb c) 0 1 * 0.9990" if "vz (eco_u_R u) \<le> 12"
    unfolding eco(3) pot(3) [OF that] by (simp add: c_def crowding_def)
  have z: "crowding = 0" if "cr c + cg c + cb c \<le> 0.5"
    using that by (simp add: crowding_def smoothstep_def clamp_def Let_def)
  have b1: "cr (ECOSYSTEM_SIMULATION_SHADER u tc)
              = cr (SIMULATION_SHADER (channel_uniforms u cr vx) tc) * 0.9995"
    if "cr c + cg c + cb c \<le> 0.5" "vx (eco_u_R u) \<le> 12"
    unfolding a1 [OF that(2)] z [OF that(1)] sr by (simp add: c_def)
  have b2: "cg (ECOSYSTEM_SIMULATION_SHADER u tc)
              = cr (SIMULATION_SHADER (channel_uniforms u cg vy) tc) * 0.9993"
    if "cr c + cg c + cb c \<le> 0.5" "vy (eco_u_R u) \<le> 12"
    unfolding a2 [OF that(2)] z [OF that(1)] sg by (simp add: c_def)
  have b3: "cb (ECOSYSTEM_SIMULATION_SHADER u tc)
              = cr (SIMULATION_SHADER (channel_uniforms u cb vz) tc) * 0.9990"
    if "cr c + cg c + cb c \<le> 0.5" "vz (eco_u_R u) \<le> 12"
    unfolding a3 [OF that(2)] z [OF that(1)] sb by (simp add: c_def)
  show ?thesis
    unfolding Let_def f c_def [symmetric] crowding_def [symmetric]
    using a1 a2 a3 b1 b2 b3 by blast
qed


lemma eco_texture_complete:
  "texture_complete ((LeniaEcosystem_createTexture w h)\<lparr>pixels := d\<rparr>)"
  by (simp add: texture_complete_def LeniaEcosystem_createTexture_def)

lemma eco_uniforms_fields:
  "eco_u_state (LeniaEcosystem_uniforms e) = current e"
  "eco_u_dt (LeniaEcosystem_uniforms e) = timeScale e"
  "u_predation (LeniaEcosystem_uniforms e) = predationStrength e"
  "u_benefit (LeniaEcosystem_uniforms e) = benefitStrength e"
  "eco_u_R (LeniaEcosystem_uniforms e) = vec3 10 12 14"
  "eco_u_T (LeniaEcosystem_uniforms e) = vec3 15 20 25"
  by (simp_all add: LeniaEcosystem_uniforms_def Let_def current_def
        ECOSYSTEM_SPECIES_prey_def ECOSYSTEM_SPECIES_predator_def ECOSYSTEM_SPECIES_apex_def)

text \<open>
  C2 as stated (with both strengths 0 the ecosystem step equals three independent
  single-species steps) fails: on a one-pixel field full of prey and predators the
  crowding term and the decay factor make the ecosystem's new prey value differ from the
  single-species step's value on the prey channel.
\<close>

theorem ecosystem_differs_from_single_species:
  "u_predation (LeniaEcosystem_uniforms crowded_ecosystem) = 0
   \<and> u_benefit (LeniaEcosystem_uniforms crowded_ecosystem) = 0
   \<and> cr (ECOSYSTEM_SIMULATION_SHADER (LeniaEcosystem_uniforms crowded_ecosystem)
            (VERTEX_SHADER (fragment_position 1 1 0 0)))
       \<noteq> cr (SIMULATION_SHADER
                (channel_uniforms (LeniaEcosystem_uniforms crowded_ecosystem) cr vx)
                (VERTEX_SHADER (fragment_position 1 1 0 0)))"
proof -
  define u where "u = LeniaEcosystem_uniforms crowded_ecosystem"
  define tc where "tc = VERTEX_SHADER (fragment_position 1 1 0 0)"
  have p: "u_predation u = 0" "u_benefit u = 0"
    by (simp_all add: u_def eco_uniforms_fields crowded_ecosystem_def
          LeniaEcosystem_constructor_def)
  have st: "eco_u_state u = (LeniaEcosystem_createTexture 1 1)\<lparr>pixels := [vec4 1 1 0 1]\<rparr>"
    by (simp add: u_def eco_uniforms_fields current_def buffer_def crowded_ecosystem_def
          LeniaEcosystem_constructor_def)
  have wf: "texture_wf 1 1 (eco_u_state u)"
    by (simp add: st texture_wf_def LeniaEcosystem_createTexture_def)
  have cmp: "texture_complete (eco_u_state u)"
    unfolding st by (rule eco_texture_complete)
  have c: "texture2D (eco_u_state u) tc = vec4 1 1 0 1"
    unfolding tc_def using texture2D_fragment [OF wf _ _ cmp, of 0 0] by (simp add: st)
  have k: "eco_u_dt u = 1 / 2" "vx (eco_u_T u) = 15"
    by (simp_all add: u_def eco_uniforms_fields crowded_ecosystem_def
          LeniaEcosystem_constructor_def)
  define g1 where "g1 = growth (vx (eco_potentials u tc)) (vx (eco_u_mu u)) (vx (eco_u_sigma u))"
  define g2 where "g2 = growth (sim_potential (channel_uniforms u cr vx) tc)
                          (vx (eco_u_mu u)) (vx (eco_u_sigma u))"
  have g: "g1 \<le> 1" "- 1 < g2"
    using growth_bounds by (simp_all add: g1_def g2_def)
  have e: "cr (ECOSYSTEM_SIMULATION_SHADER u tc) = clamp (1 + g1 * (1 / 2) / 15 - 1 / 10) 0 1 * 0.9995"
    unfolding eco_shader_channels(1) [OF p] c k g1_def [symmetric]
    by (simp add: smoothstep_above)
  have s: "cr (SIMULATION_SHADER (channel_uniforms u cr vx) tc) = clamp (1 + g2 * (1 / 2) / 15) 0 1"
    using sim_shader_channel [OF wf, of cr vx tc]
    unfolding c k g2_def [symmetric] by (simp add: channel_linear)
  have "clamp (1 + g1 * (1 / 2) / 15 - 1 / 10) 0 1 * 0.9995 < 19 / 20"
    using g(1) by (simp add: clamp_def min_def max_def)
  moreover have "19 / 20 < clamp (1 + g2 * (1 / 2) / 15) 0 1"
    using g(2) by (simp add: clamp_def min_def max_def)
  ultimately have "cr (ECOSYSTEM_SIMULATION_SHADER u tc)
                     \<noteq> cr (SIMULATION_SHADER (channel_uniforms u cr vx) tc)"
    unfolding e s by linarith
  with p show ?thesis unfolding u_def tc_def by blast
qed

theorem ecosystem_without_interaction_witness:
  "u_predation (LeniaEcosystem_uniforms quiet_ecosystem) = 0
   \<and> u_benefit (LeniaEcosystem_uniforms quiet_ecosystem) = 0
   \<and> texture_wf 2 1 (eco_u_state (LeniaEcosystem_uniforms quiet_ecosystem))
   \<and> vx (eco_u_R (LeniaEcosystem_uniforms quiet_ecosystem)) \<le> 12
   \<and> vy (eco_u_R (LeniaEcosystem_uniforms quiet_ecosystem)) \<le> 12
   \<and> texture2D (eco_u_state (LeniaEcosystem_uniforms quiet_ecosystem))
        (VERTEX_SHADER (fragment_position 2 1 0 0)) = vec4 0.25 0.125 0.0625 1
   \<and> cr (ECOSYSTEM_SIMULATION_SHADER (LeniaEcosystem_uniforms quiet_ecosystem)
            (VERTEX_SHADER (fragment_position 2 1 0 0)))
       = cr (SIMULATION_SHADER (channel_uniforms (LeniaEcosystem_uniforms quiet_ecosystem) cr vx)
               (VERTEX_SHADER (fragment_position 2 1 0 0))) * 0.9995
   \<and> cg (ECOSYSTEM_SIMULATION_SHADER (LeniaEcosystem_uniforms quiet_ecosystem)
            (VERTEX_SHADER (fragment_position 2 1 0 0)))
       = cr (SIMULATION_SHADER (channel_uniforms (LeniaEcosystem_uniforms quiet_ecosystem) cg vy)
               (VERTEX_SHADER (fragment_position 2 1 0 0))) * 0.9993"
proof -
  define u where "u = LeniaEcosystem_uniforms quiet_ecosystem"
  define tc where "tc = VERTEX_SHADER (fragment_position 2 1 0 0)"
  have p: "u_predation u = 0" "u_benefit u = 0"
    by (simp_all add: u_def eco_uniforms_fields quiet_ecosystem_def
          LeniaEcosystem_constructor_def)
  have st: "eco_u_state u = (LeniaEcosystem_createTexture 2 1)
                \<lparr>pixels := [vec4 0.25 0.125 0.0625 1, vec4 0 0 0 1]\<rparr>"
    by (simp add: u_def eco_uniforms_fields current_def buffer_def quiet_ecosystem_def
          LeniaEcosystem_constructor_def)
  have wf: "texture_wf 2 1 (eco_u_state u)"
    by (simp add: st texture_wf_def LeniaEcosystem_createTexture_def)
  have pos: "(0::nat) < 2" "(0::nat) < 1" by simp_all
  have cmp: "texture_complete (eco_u_state u)"
    unfolding st by (rule eco_texture_complete)
  have c: "texture2D (eco_u_state u) tc = vec4 0.25 0.125 0.0625 1"
    unfolding tc_def using texture2D_fragment [OF wf _ _ cmp, of 0 0] by (simp add: st)
  have r: "vx (eco_u_R u) \<le> 12" "vy (eco_u_R u) \<le> 12"
    by (simp_all add: u_def eco_uniforms_fields)
  have low: "cr (texture2D (eco_u_state u) tc) + cg (texture2D (eco_u_state u) tc)
               + cb (texture2D (eco_u_state u) tc) \<le> 0.5"
    unfolding c by simp
  have "cr (ECOSYSTEM_SIMULATION_SHADER u tc)
          = cr (SIMULATION_SHADER (channel_uniforms u cr vx) tc) * 0.9995
      \<and> cg (ECOSYSTEM_SIMULATION_SHADER u tc)
          = cr (SIMULATION_SHADER (channel_uniforms u cg vy) tc) * 0.9993"
    using ecosystem_without_interaction [OF p wf pos, of tc] r low
    unfolding Let_def by blast
  with p wf r c show ?thesis unfolding u_def tc_def by blast
qed

subsection \<open>Neighbourhood sampling at the field boundary\<close>

text \<open>
  A \<open>REPEAT\<close> texture is complete exactly when its width and height are powers of two;
  on any other size every sample of the single-species shader is \<open>(0, 0, 0, 1)\<close>,
  whatever the field holds, as on the field of 3 by 1 pixels.
\<close>

lemma repeat_texture_complete:
  "is_power_of_two w \<Longrightarrow> is_power_of_two h
     \<Longrightarrow> texture_complete ((Lenia_createTexture w h)\<lparr>pixels := d\<rparr>)"
  by (simp add: texture_complete_def Lenia_createTexture_def)

lemma repeat_texture_incomplete:
  "\<not> (is_power_of_two w \<and> is_power_of_two h)
     \<Longrightarrow> texture2D ((Lenia_createTexture w h)\<lparr>pixels := d\<rparr>) st = vec4 0 0 0 1"
  by (rule texture2D_incomplete) (simp add: texture_complete_def Lenia_createTexture_def)

lemma repeat_sample:
  assumes "x < w" and "y < h" and "is_power_of_two w" and "is_power_of_two h"
  shows "sim_sample ((Lenia_createTexture w h)\<lparr>pixels := data\<rparr>) (real w, real h)
           (VERTEX_SHADER (fragment_position w h x y)) (dy, dx)
         = data ! (nat ((int y + dy) mod int h) * w + nat ((int x + dx) mod int w))"
proof -
  define t where "t = (Lenia_createTexture w h)\<lparr>pixels := data\<rparr>"
  have d: "tex_width t = w" "tex_height t = h" "0 < tex_width t" "0 < tex_height t"
    using assms(1,2) by (simp_all add: t_def Lenia_createTexture_def)
  have c: "texture_complete t"
    unfolding t_def using assms(3,4) by (rule repeat_texture_complete)
  have "sim_sample t (real (tex_width t), real (tex_height t))
           (VERTEX_SHADER (fragment_position (tex_width t) (tex_height t) x y)) (dy, dx)
        = texel t (int x + snd (dy, dx)) (int y + fst (dy, dx))"
    using c d(3,4) by (rule sim_sample_texel)
  then show ?thesis
    unfolding d(1,2) by (simp add: t_def texel_def wrap_index_def Lenia_createTexture_def)
qed

lemma clamp_sample:
  assumes "x < w" and "y < h"
  shows "sim_sample ((LeniaEcosystem_createTexture w h)\<lparr>pixels := data\<rparr>) (real w, real h)
           (VERTEX_SHADER (fragment_position w h x y)) (dy, dx)
         = data ! (nat (max 0 (min (int h - 1) (int y + dy))) * w
                   + nat (max 0 (min (int w - 1) (int x + dx))))"
proof -
  define t where "t = (LeniaEcosystem_createTexture w h)\<lparr>pixels := data\<rparr>"
  have d: "tex_width t = w" "tex_height t = h" "0 < tex_width t" "0 < tex_height t"
    using assms(1,2) by (simp_all add: t_def LeniaEcosystem_createTexture_def)
  have c: "texture_complete t"
    unfolding t_def by (rule eco_texture_complete)
  have "sim_sample t (real (tex_width t), real (tex_height t))
           (VERTEX_SHADER (fragment_position (tex_width t) (tex_height t) x y)) (dy, dx)
        = texel t (int x + snd (dy, dx)) (int y + fst (dy, dx))"
    using c d(3,4) by (rule sim_sample_texel)
  then show ?thesis
    unfolding d(1,2)
    by (simp add: t_def texel_def wrap_index_def LeniaEcosystem_createTexture_def)
qed

lemma three_field_samples_black:
  "texture2D ((Lenia_createTexture 3 1)\<lparr>pixels := three_field\<rparr>) st = vec4 0 0 0 1"
  by (rule repeat_texture_incomplete) (simp add: is_power_of_two_def)

text \<open>
  C3 as stated (neighbourhood sampling wraps modulo W and H in both engines) fails for
  the ecosystem engine, whose textures are created with CLAMP_TO_EDGE: on a field of
  3 by 1 pixels, the neighbour one step to the right of the last pixel is that last pixel
  again, not the first one.
\<close>

theorem ecosystem_sampling_clamps_at_edge:
  "texture2D ((LeniaEcosystem_createTexture 3 1)
                \<lparr>pixels := [vec4 0.1 0 0 1, vec4 0.5 0 0 1, vec4 0.9 0 0 1]\<rparr>)
     (fst (VERTEX_SHADER (fragment_position 3 1 2 0)) + real_of_int 1 * (1 / real 3),
      snd (VERTEX_SHADER (fragment_position 3 1 2 0)) + real_of_int 0 * (1 / real 1))
   \<noteq> [vec4 0.1 0 0 1, vec4 0.5 0 0 1, vec4 0.9 0 0 1]
        ! (nat ((int 0 + 0) mod int 1) * 3 + nat ((int 2 + 1) mod int 3))"
proof -
  have "texture2D ((LeniaEcosystem_createTexture 3 1)
                \<lparr>pixels := [vec4 0.1 0 0 1, vec4 0.5 0 0 1, vec4 0.9 0 0 1]\<rparr>)
     (fst (VERTEX_SHADER (fragment_position 3 1 2 0)) + real_of_int 1 * (1 / real 3),
      snd (VERTEX_SHADER (fragment_position 3 1 2 0)) + real_of_int 0 * (1 / real 1))
     = vec4 0.9 0 0 1"
    by (simp add: LeniaEcosystem_createTexture_def texture2D_def texture_complete_def
          VERTEX_SHADER_def fragment_position_def texel_def wrap_index_def vec4_add_def
          vec4_scale_def Let_def)
  then show ?thesis by simp
qed

text \<open>
  C3, amended: at pixel \<open>(x, y)\<close>, the iteration of the convolution loop for the
  neighbour offset \<open>(dx, dy)\<close> adds the kernel weight of the offset times the value of one
  texel. In the single-species engine (textures created with \<open>REPEAT\<close>), on a field whose
  width and height are powers of two, that texel is
  \<open>((x + dx) mod W, (y + dy) mod H)\<close>: the field is a torus. In the ecosystem engine
  (textures created with \<open>CLAMP_TO_EDGE\<close>), on a field of any size, it is the texel at the
  coordinates clamped to \<open>[0, W - 1]\<close> and \<open>[0, H - 1]\<close>: an offset that leaves the grid
  reads the nearest edge pixel, not the opposite edge.
\<close>

theorem neighbor_sampling:
  assumes "x < w" and "y < h"
  shows "(is_power_of_two w \<and> is_power_of_two h \<longrightarrow>
            sim_loop_body
              (u\<lparr>u_state := (Lenia_createTexture w h)\<lparr>pixels := data\<rparr>,
                 u_resolution := (real w, real h)\<rparr>)
              (VERTEX_SHADER (fragment_position w h x y)) (dy, dx) acc
            = (let neighbor = data ! (nat ((int y + dy) mod int h) * w
                                      + nat ((int x + dx) mod int w));
                   k = disc_weight (u_R u) (dy, dx)
               in (fst acc + cr neighbor * k, snd acc + k)))
       \<and> eco_loop_body
            (e\<lparr>eco_u_state := (LeniaEcosystem_createTexture w h)\<lparr>pixels := data\<rparr>,
               eco_u_resolution := (real w, real h)\<rparr>)
            (VERTEX_SHADER (fragment_position w h x y)) (dy, dx) eacc
          = (let neighbor = data ! (nat (max 0 (min (int h - 1) (int y + dy))) * w
                                    + nat (max 0 (min (int w - 1) (int x + dx))));
                 k_prey = disc_weight (vx (eco_u_R e)) (dy, dx);
                 k_pred = disc_weight (vy (eco_u_R e)) (dy, dx);
                 k_apex = disc_weight (vz (eco_u_R e)) (dy, dx)
             in (vec3 (vx (fst eacc) + cr neighbor * k_prey)
                      (vy (fst eacc) + cg neighbor * k_pred)
                      (vz (fst eacc) + cb neighbor * k_apex),
                 vec3 (vx (snd eacc) + k_prey) (vy (snd eacc) + k_pred) (vz (snd eacc) + k_apex)))"
proof -
  have a: "sim_loop_body
              (u\<lparr>u_state := (Lenia_createTexture w h)\<lparr>pixels := data\<rparr>,
                 u_resolution := (real w, real h)\<rparr>)
              (VERTEX_SHADER (fragment_position w h x y)) (dy, dx) acc
            = (let neighbor = data ! (nat ((int y + dy) mod int h) * w
                                      + nat ((int x + dx) mod int w));
                   k = disc_weight (u_R u) (dy, dx)
               in (fst acc + cr neighbor * k, snd acc + k))"
    if "is_power_of_two w" "is_power_of_two h"
    unfolding sim_loop_body_eq
    by (simp add: repeat_sample [OF assms that] Let_def)
  have b: "eco_loop_body
            (e\<lparr>eco_u_state := (LeniaEcosystem_createTexture w h)\<lparr>pixels := data\<rparr>,
               eco_u_resolution := (real w, real h)\<rparr>)
            (VERTEX_SHADER (fragment_position w h x y)) (dy, dx) eacc
          = (let neighbor = data ! (nat (max 0 (min (int h - 1) (int y + dy))) * w
                                    + nat (max 0 (min (int w - 1) (int x + dx))));
                 k_prey = disc_weight (vx (eco_u_R e)) (dy, dx);
                 k_pred = disc_weight (vy (eco_u_R e)) (dy, dx);
                 k_apex = disc_weight (vz (eco_u_R e)) (dy, dx)
             in (vec3 (vx (fst eacc) + cr neighbor * k_prey)
                      (vy (fst eacc) + cg neighbor * k_pred)
                      (vz (fst eacc) + cb neighbor * k_apex),
                 vec3 (vx (snd eacc) + k_prey) (vy (snd eacc) + k_pred) (vz (snd eacc) + k_apex)))"
    unfolding eco_loop_body_eq
    by (simp add: clamp_sample [OF assms] Let_def)
  from a b show ?thesis by blast
qed

theorem neighbor_sampling_witness:
  "(3::nat) < 4 \<and> (0::nat) < 1 \<and> is_power_of_two 4 \<and> is_power_of_two 1
   \<and> sim_loop_body
        (wide_uniforms\<lparr>u_state := (Lenia_createTexture 4 1)\<lparr>pixels := four_field\<rparr>,
                       u_resolution := (real 4, real 1)\<rparr>)
        (VERTEX_SHADER (fragment_position 4 1 3 0)) (0, 1) (0, 0)
      = (cr (four_field ! 0) * disc_weight 20 (0, 1), disc_weight 20 (0, 1))
   \<and> eco_loop_body
        ((LeniaEcosystem_uniforms example_ecosystem)
           \<lparr>eco_u_state := (LeniaEcosystem_createTexture 4 1)\<lparr>pixels := four_field\<rparr>,
            eco_u_resolution := (real 4, real 1)\<rparr>)
        (VERTEX_SHADER (fragment_position 4 1 3 0)) (0, 1) (vec3 0 0 0, vec3 0 0 0)
      = (vec3 (cr (four_field ! 3) * disc_weight 10 (0, 1))
              (cg (four_field ! 3) * disc_weight 12 (0, 1))
              (cb (four_field ! 3) * disc_weight 14 (0, 1)),
         vec3 (disc_weight 10 (0, 1)) (disc_weight 12 (0, 1)) (disc_weight 14 (0, 1)))"
proof -
  have h1: "(3::nat) < 4" by simp
  have h2: "(0::nat) < 1" by simp
  have h3: "is_power_of_two 4" "is_power_of_two 1" by (simp_all add: is_power_of_two_def)
  have r: "u_R wide_uniforms = 20"
    by (simp add: wide_uniforms_def Lenia_uniforms_def)
  have q: "eco_u_R (LeniaEcosystem_uniforms example_ecosystem) = vec3 10 12 14"
    by (simp add: eco_uniforms_fields)
  show ?thesis
    using neighbor_sampling [OF h1 h2, where u = wide_uniforms and data = four_field
            and dy = 0 and dx = 1 and acc = "(0, 0)"
            and e = "LeniaEcosystem_uniforms example_ecosystem"
            and eacc = "(vec3 0 0 0, vec3 0 0 0)"] h3
    by (simp add: Let_def r q)
qed

subsection \<open>A lone apex\<close>

lemma exp_722: "exp (- 722 :: real) < 1 / 2"
proof -
  have "1 + (722 :: real) \<le> exp 722" by (rule exp_ge_add_one_self)
  then have "(2 :: real) < exp 722" by linarith
  then have "1 / exp (722 :: real) < 1 / 2" by (simp add: field_simps)
  then show ?thesis by (simp add: exp_minus inverse_eq_divide)
qed

lemma one_pixel_sample:
  "texture2D ((LeniaEcosystem_createTexture 1 1)\<lparr>pixels := [p]\<rparr>) st = p"
proof -
  have w: "wrap_index CLAMP_TO_EDGE (Suc 0) i = 0" for i
    by (simp add: wrap_index_def)
  have t: "texel ((LeniaEcosystem_createTexture 1 1)\<lparr>pixels := [p]\<rparr>) i j = p" for i j
    by (simp add: texel_def LeniaEcosystem_createTexture_def w)
  have m: "vec4_add (vec4_add (vec4_scale ((1 - a) * (1 - b)) p) (vec4_scale (a * (1 - b)) p))
             (vec4_add (vec4_scale ((1 - a) * b) p) (vec4_scale (a * b) p)) = p" for a b
    by (cases p) (simp add: vec4_add_def vec4_scale_def algebra_simps)
  show ?thesis
    unfolding texture2D_def if_P [OF eco_texture_complete] Let_def t by (rule m)
qed

lemma lone_apex_fields:
  "eco_u_state (LeniaEcosystem_uniforms lone_apex_ecosystem)
     = (LeniaEcosystem_createTexture 1 1)\<lparr>pixels := [vec4 0 0 0.5 1]\<rparr>"
  "eco_u_dt (LeniaEcosystem_uniforms lone_apex_ecosystem) = 1 / 2"
  "eco_u_R (LeniaEcosystem_uniforms lone_apex_ecosystem) = vec3 10 12 14"
  "eco_u_T (LeniaEcosystem_uniforms lone_apex_ecosystem) = vec3 15 20 25"
  "vz (eco_u_mu (LeniaEcosystem_uniforms lone_apex_ecosystem)) = 12 / 100"
  "vz (eco_u_sigma (LeniaEcosystem_uniforms lone_apex_ecosystem)) = 1 / 100"
  by (simp_all add: eco_uniforms_fields lone_apex_ecosystem_def LeniaEcosystem_constructor_def
        current_def buffer_def)
    (simp_all add: LeniaEcosystem_uniforms_def Let_def ECOSYSTEM_SPECIES_apex_def)

lemma lone_apex_potential:
  "vz (eco_potentials (LeniaEcosystem_uniforms lone_apex_ecosystem) tc) = 1 / 2"
proof -
  define u where "u = LeniaEcosystem_uniforms lone_apex_ecosystem"
  define ks where "ks = (\<Sum>off\<leftarrow>offsets 15. disc_weight 14 off)"
  have s: "sim_sample (eco_u_state u) res tc off = vec4 0 0 0.5 1" for res off
    unfolding sim_sample_def u_def lone_apex_fields by (rule one_pixel_sample)
  have "(0, 7) \<in> set (offsets 15)" by (simp add: set_offsets)
  then have "disc_weight 14 (0, 7) \<le> ks"
    unfolding ks_def by (rule sum_list_ge_member [OF disc_weight_nonneg])
  moreover have "disc_weight 14 (0, 7) = 1"
    by (simp add: disc_weight_def offset_dist_axis kernel_w_def Let_def)
  ultimately have k: "1 \<le> ks" by simp
  have "vz (eco_potentials u tc) = (\<Sum>off\<leftarrow>offsets 15. (1 / 2) * disc_weight 14 off) / max ks 0.001"
    unfolding eco_potentials_sum s by (simp add: u_def lone_apex_fields ks_def)
  also have "(\<Sum>off\<leftarrow>offsets 15. (1 / 2) * disc_weight 14 off) = (1 / 2) * ks"
    unfolding ks_def by (rule sum_list_const_mult)
  also have "(1 / 2) * ks / max ks 0.001 = 1 / 2"
    using k by (simp add: max_def)
  finally show ?thesis unfolding u_def .
qed

text \<open>
  C10 as stated (the apex value is decreased only by the crowding term and the decay
  factor 0.9990) fails: on a one-pixel field that holds apex density 0.5 and no prey and
  no predator, the crowding term is 0 and there is no other species, yet the new apex
  value is strictly below \<open>0.5 * 0.9990\<close>, because the apex's own growth term is negative
  (its potential 0.5 is far from \<open>mu = 0.12\<close>).
\<close>

theorem apex_falls_without_crowding:
  "texture2D (eco_u_state (LeniaEcosystem_uniforms lone_apex_ecosystem))
       (VERTEX_SHADER (fragment_position 1 1 0 0)) = vec4 0 0 0.5 1
   \<and> smoothstep 0.5 1.5 (0 + 0 + 0.5) * 0.1 = 0
   \<and> cb (ECOSYSTEM_SIMULATION_SHADER (LeniaEcosystem_uniforms lone_apex_ecosystem)
            (VERTEX_SHADER (fragment_position 1 1 0 0)))
       < 0.5 * 0.9990"
proof -
  define u where "u = LeniaEcosystem_uniforms lone_apex_ecosystem"
  define tc where "tc = VERTEX_SHADER (fragment_position 1 1 0 0)"
  have c: "texture2D (eco_u_state u) tc = vec4 0 0 0.5 1"
    unfolding u_def lone_apex_fields by (rule one_pixel_sample)
  have z: "smoothstep 0.5 1.5 (0 + 0 + 0.5) * 0.1 = (0::real)"
    by (simp add: smoothstep_def clamp_def Let_def)
  have "growth (1 / 2) (12 / 100) (1 / 100) = 2 * exp (- 722) - 1"
    by (simp add: growth_def Let_def)
  then have g: "growth (1 / 2) (12 / 100) (1 / 100) < 0"
    using exp_722 by simp
  define G where "G = growth (1 / 2) (12 / 100) (1 / 100)"
  have "cb (ECOSYSTEM_SIMULATION_SHADER u tc) = clamp (1 / 2 + G * (1 / 2) / 25) 0 1 * 0.9990"
    unfolding ECOSYSTEM_SIMULATION_SHADER_def Let_def c
    unfolding u_def lone_apex_potential lone_apex_fields G_def
    by (simp add: smoothstep_def clamp_def)
  moreover have "clamp (1 / 2 + G * (1 / 2) / 25) 0 1 < 1 / 2"
    using g growth_bounds [of "1 / 2" "12 / 100" "1 / 100"] unfolding G_def [symmetric]
    by (simp add: clamp_def min_def max_def)
  ultimately have "cb (ECOSYSTEM_SIMULATION_SHADER u tc) < 0.5 * 0.9990" by simp
  with c z show ?thesis unfolding u_def tc_def by blast
qed

end
